theory Spec2Isabelle
  imports Main "HOL-Library.Word" "HOL-Library.AList"
begin

section \<open>JavaScript values\<close>

text \<open>
  The program is untyped JavaScript, so arguments that the code inspects with
  \<^verbatim>\<open>typeof\<close>, \<^verbatim>\<open>!x\<close> or \<^verbatim>\<open>if (x)\<close> are modelled as dynamic values.
  Numbers are the integers (file sizes, epoch milliseconds, status codes) together with
  \<^verbatim>\<open>NaN\<close>; a string is a list of code units, each \<^typ>\<open>char\<close> standing for one
  UTF-16 code unit below 256, so \<^const>\<open>length\<close> is JavaScript's \<^verbatim>\<open>.length\<close>
  on such strings. An object is the list of its own enumerable properties in insertion
  order.
\<close>

datatype jsval =
    JUndefined
  | JNull
  | JBool bool
  | JNum int
  | JNaN
  | JStr string
  | JArr "jsval list"
  | JObj "(string \<times> jsval) list"

text \<open>\<^verbatim>\<open>if (v)\<close>, \<^verbatim>\<open>!v\<close> and \<^verbatim>\<open>a || b\<close> test truthiness.\<close>

fun truthy :: "jsval \<Rightarrow> bool" where
  "truthy JUndefined = False"
| "truthy JNull = False"
| "truthy (JBool b) = b"
| "truthy (JNum n) = (n \<noteq> 0)"
| "truthy JNaN = False"
| "truthy (JStr s) = (s \<noteq> [])"
| "truthy (JArr xs) = True"
| "truthy (JObj kvs) = True"

text \<open>A default parameter value \<^verbatim>\<open>(x = d)\<close> replaces exactly \<^verbatim>\<open>undefined\<close>.\<close>

definition default_arg :: "jsval \<Rightarrow> jsval \<Rightarrow> jsval" where
  "default_arg d v = (if v = JUndefined then d else v)"


subsection \<open>Strings\<close>

text \<open>
  \<^verbatim>\<open>String.prototype.trim\<close> removes white space and line terminators from both
  ends. Below 256 these are U+0009 to U+000D, U+0020 and U+00A0.
\<close>

definition isWhiteSpace :: "char \<Rightarrow> bool" where
  "isWhiteSpace c = (of_char c \<in> {9, 10, 11, 12, 13, 32, 160 :: nat})"

definition trim :: "string \<Rightarrow> string" where
  "trim s = rev (dropWhile isWhiteSpace (rev (dropWhile isWhiteSpace s)))"

text \<open>
  \<^verbatim>\<open>toUpperCase\<close> and \<^verbatim>\<open>toLowerCase\<close> on code units below 256: the ASCII
  letters, the Latin-1 letters U+00E0 to U+00FE (without the division sign) and the
  sharp s, which becomes two letters. The two code units whose capital lies above 255
  (U+00B5, U+00FF) are kept as they are; neither capital is an ASCII letter.
\<close>

definition ascii_lower :: string where
  "ascii_lower = ''abcdefghijklmnopqrstuvwxyz''"

definition ascii_upper :: string where
  "ascii_upper = ''ABCDEFGHIJKLMNOPQRSTUVWXYZ''"

definition upper_unit :: "char \<Rightarrow> string" where
  "upper_unit c =
     (case map_of (zip ascii_lower ascii_upper) c of
        Some u \<Rightarrow> [u]
      | None \<Rightarrow>
          (let n = of_char c :: nat in
           if n = 223 then ''SS''
           else if 224 \<le> n \<and> n \<le> 254 \<and> n \<noteq> 247 then [char_of (n - 32)]
           else [c]))"

definition toUpperCase :: "string \<Rightarrow> string" where
  "toUpperCase s = concat (map upper_unit s)"

definition lower_unit :: "char \<Rightarrow> char" where
  "lower_unit c =
     (case map_of (zip ascii_upper ascii_lower) c of
        Some l \<Rightarrow> l
      | None \<Rightarrow>
          (let n = of_char c :: nat in
           if 192 \<le> n \<and> n \<le> 222 \<and> n \<noteq> 215 then char_of (n + 32) else c))"

definition toLowerCase :: "string \<Rightarrow> string" where
  "toLowerCase s = map lower_unit s"

text \<open>
  The decimal text of an integer, as a template literal renders a number (below
  \<open>10\<^sup>2\<^sup>1\<close> in magnitude, where JavaScript still writes every digit).
\<close>

fun nat_to_string :: "nat \<Rightarrow> string" where
  "nat_to_string n =
     (if n < 10 then [''0123456789'' ! n]
      else nat_to_string (n div 10) @ [''0123456789'' ! (n mod 10)])"

declare nat_to_string.simps [simp del]

definition int_to_string :: "int \<Rightarrow> string" where
  "int_to_string i = (if i < 0 then CHR ''-'' # nat_to_string (nat (- i)) else nat_to_string (nat i))"

text \<open>
  \<^verbatim>\<open>String(v)\<close>, which a template literal applies to an interpolated value. An array
  is its elements joined by commas, \<^verbatim>\<open>null\<close> and \<^verbatim>\<open>undefined\<close> elements empty.
\<close>

fun join_comma :: "string list \<Rightarrow> string" where
  "join_comma [] = []"
| "join_comma [x] = x"
| "join_comma (x # y # r) = x @ '','' @ join_comma (y # r)"

fun js_to_string :: "jsval \<Rightarrow> string" where
  "js_to_string JUndefined = ''undefined''"
| "js_to_string JNull = ''null''"
| "js_to_string (JBool b) = (if b then ''true'' else ''false'')"
| "js_to_string (JNum n) = int_to_string n"
| "js_to_string JNaN = ''NaN''"
| "js_to_string (JStr s) = s"
| "js_to_string (JArr xs) =
     join_comma (map (\<lambda>x. if x = JUndefined \<or> x = JNull then [] else js_to_string x) xs)"
| "js_to_string (JObj kvs) = ''[object Object]''"

text \<open>
  Reading a property that the program names (never an index). A string or an array has
  \<^verbatim>\<open>length\<close>; a primitive has none of the other names; the prototype of a plain
  object has none of the names the program reads as data.
\<close>

fun js_prop :: "jsval \<Rightarrow> string \<Rightarrow> jsval" where
  "js_prop (JObj kvs) k = (case map_of kvs k of Some v \<Rightarrow> v | None \<Rightarrow> JUndefined)"
| "js_prop (JStr s) k = (if k = ''length'' then JNum (int (length s)) else JUndefined)"
| "js_prop (JArr xs) k = (if k = ''length'' then JNum (int (length xs)) else JUndefined)"
| "js_prop v k = JUndefined"

text \<open>What the runtime throws: the constructor and the message.\<close>

datatype exn = Error string | TypeError string

fun exn_message :: "exn \<Rightarrow> string" where
  "exn_message (Error m) = m"
| "exn_message (TypeError m) = m"

section \<open>Response formatter (utils/responseHandler.js)\<close>

record envelope =
  status :: bool
  code :: jsval
  message :: jsval
  data :: "jsval option"
  meta :: "jsval option"
  errors :: "jsval option"
  timestamp :: string

text \<open>
  \<^verbatim>\<open>res.status(statusCode).json(response)\<close>: the HTTP status given to the transport and
  the object given to it as the body. An optional key of the body that the code never
  assigns is \<^const>\<open>None\<close>. The last argument of every builder is the text that
  \<^verbatim>\<open>new Date().toISOString()\<close> returns at the call.
\<close>

record response =
  http_status :: jsval
  json :: envelope

definition sendSuccessResponse ::
  "jsval \<Rightarrow> jsval \<Rightarrow> jsval \<Rightarrow> jsval \<Rightarrow> string \<Rightarrow> response" where
  "sendSuccessResponse data0 message0 meta0 statusCode0 now_iso =
     (let message1 = default_arg (JStr ''Success'') message0;
          meta1 = default_arg JNull meta0;
          statusCode = default_arg (JNum 200) statusCode0;
          response0 = \<lparr>status = True, code = statusCode, message = message1,
                       data = Some data0, meta = None, errors = None,
                       timestamp = now_iso\<rparr>;
          response1 = (if truthy meta1 then response0\<lparr>meta := Some meta1\<rparr> else response0)
      in \<lparr>http_status = statusCode, json = response1\<rparr>)"

definition sendErrorResponse :: "jsval \<Rightarrow> jsval \<Rightarrow> jsval \<Rightarrow> string \<Rightarrow> response" where
  "sendErrorResponse message0 statusCode0 errors0 now_iso =
     (let statusCode = default_arg (JNum 500) statusCode0;
          errors1 = default_arg JNull errors0;
          response0 = \<lparr>status = False, code = statusCode, message = message0,
                       data = None, meta = None, errors = None,
                       timestamp = now_iso\<rparr>;
          response1 = (if truthy errors1 then response0\<lparr>errors := Some errors1\<rparr> else response0)
      in \<lparr>http_status = statusCode, json = response1\<rparr>)"

definition sendValidationError :: "jsval \<Rightarrow> jsval \<Rightarrow> string \<Rightarrow> response" where
  "sendValidationError message0 validationErrors0 now_iso =
     (let validationErrors = default_arg JNull validationErrors0
      in sendErrorResponse message0 (JNum 400) validationErrors now_iso)"

text \<open>
  An \<^verbatim>\<open>Error\<close> object as far as the program reads it. \<^verbatim>\<open>new Error(m)\<close> sets
  \<^verbatim>\<open>message\<close> to \<^verbatim>\<open>m\<close>; the text of \<^verbatim>\<open>stack\<close> is the engine's.
\<close>

record error_obj =
  err_message :: jsval
  err_stack :: jsval

text \<open>
  What a handler does besides answering: console lines (the label only; timestamps,
  durations and the logged detail objects are not modelled), the encoding of the file
  and the call of the upstream service.
\<close>

record file_data =
  fd_mimeType :: jsval
  fd_data :: string

datatype event =
    ConsoleLog string
  | ConsoleWarn string
  | ConsoleError string
  | Encoded file_data
  | UpstreamCalled string "file_data option"

text \<open>\<^verbatim>\<open>process.env.NODE_ENV\<close> is a string or \<^verbatim>\<open>undefined\<close>.\<close>

type_synonym node_env = "string option"

definition sendInternalServerError ::
  "node_env \<Rightarrow> error_obj \<Rightarrow> jsval \<Rightarrow> string \<Rightarrow> event list \<times> response" where
  "sendInternalServerError NODE_ENV error customMessage0 now_iso =
     (let customMessage = default_arg (JStr ''Internal server error'') customMessage0;
          isDevelopment = (NODE_ENV = Some ''development'');
          errorDetails = (if isDevelopment
                          then JObj [(''message'', err_message error), (''stack'', err_stack error)]
                          else JStr ''Internal server error occurred'')
      in ([ConsoleError ''Internal Server Error:''],
          sendErrorResponse customMessage (JNum 500) errorDetails now_iso))"

section \<open>File-type registry and file validator (utils/fileValidation.js)\<close>

record file_type_config =
  name :: string
  maxSize :: int
  allowedMimeTypes :: "string list"
  fieldName :: string
  errorMessage :: string

definition IMAGE :: file_type_config where
  "IMAGE = \<lparr>name = ''image'', maxSize = 10 * 1024 * 1024,
     allowedMimeTypes = [''image/jpeg'', ''image/jpg'', ''image/png'', ''image/gif'',
       ''image/webp'', ''image/bmp'', ''image/svg+xml''],
     fieldName = ''file'',
     errorMessage = ''Only JPEG, PNG, GIF, WebP, BMP, and SVG image files are allowed''\<rparr>"

definition DOCUMENT :: file_type_config where
  "DOCUMENT = \<lparr>name = ''document'', maxSize = 50 * 1024 * 1024,
     allowedMimeTypes = [''application/pdf'', ''application/msword'',
       ''application/vnd.openxmlformats-officedocument.wordprocessingml.document'',
       ''text/plain'', ''text/csv'', ''application/vnd.ms-excel'',
       ''application/vnd.openxmlformats-officedocument.spreadsheetml.sheet'',
       ''application/vnd.openxmlformats-officedocument.presentationml.presentation''],
     fieldName = ''file'',
     errorMessage = ''Only PDF, Word, Excel, PowerPoint, Text, and CSV files are allowed''\<rparr>"

definition AUDIO :: file_type_config where
  "AUDIO = \<lparr>name = ''audio'', maxSize = 100 * 1024 * 1024,
     allowedMimeTypes = [''audio/mpeg'', ''audio/mp3'', ''audio/wav'', ''audio/ogg'',
       ''audio/aac'', ''audio/flac'', ''audio/webm''],
     fieldName = ''file'',
     errorMessage = ''Only MP3, WAV, OGG, AAC, FLAC, and WebM audio files are allowed''\<rparr>"

definition VIDEO :: file_type_config where
  "VIDEO = \<lparr>name = ''video'', maxSize = 200 * 1024 * 1024,
     allowedMimeTypes = [''video/mp4'', ''video/avi'', ''video/mov'', ''video/wmv'',
       ''video/flv'', ''video/webm'', ''video/mkv''],
     fieldName = ''file'',
     errorMessage = ''Only MP4, AVI, MOV, WMV, FLV, WebM, and MKV video files are allowed''\<rparr>"

definition FILE_TYPES :: "(string \<times> file_type_config) list" where
  "FILE_TYPES = [(''IMAGE'', IMAGE), (''DOCUMENT'', DOCUMENT), (''AUDIO'', AUDIO), (''VIDEO'', VIDEO)]"

text \<open>
  The file object that the upload middleware attaches to the request, as far as the
  program reads it. \<open>file_size\<close> is the property \<^verbatim>\<open>size\<close>; \<open>buffer\<close> is
  \<^const>\<open>None\<close> when the property is missing. An absent file (\<^verbatim>\<open>null\<close>,
  \<^verbatim>\<open>undefined\<close>) is \<^const>\<open>None\<close>.
\<close>

record upload_file =
  originalname :: jsval
  mimetype :: jsval
  file_size :: jsval
  buffer :: "8 word list option"

fun typeof :: "jsval \<Rightarrow> string" where
  "typeof JUndefined = ''undefined''"
| "typeof JNull = ''object''"
| "typeof (JBool b) = ''boolean''"
| "typeof (JNum n) = ''number''"
| "typeof JNaN = ''number''"
| "typeof (JStr s) = ''string''"
| "typeof (JArr xs) = ''object''"
| "typeof (JObj kvs) = ''object''"

text \<open>\<^verbatim>\<open>FILE_TYPES[upperTypeName] || null\<close>: every configuration is an object, so truthy.\<close>

definition getFileTypeConfig :: "jsval \<Rightarrow> file_type_config option" where
  "getFileTypeConfig typeName =
     (if \<not> truthy typeName \<or> typeof typeName \<noteq> ''string'' then None
      else case typeName of
             JStr s \<Rightarrow> map_of FILE_TYPES (toUpperCase s)
           | _ \<Rightarrow> None)"

text \<open>\<^verbatim>\<open>Array.prototype.includes\<close> on a list of strings: only an equal string is found.\<close>

definition array_includes :: "string list \<Rightarrow> jsval \<Rightarrow> bool" where
  "array_includes xs v = (case v of JStr m \<Rightarrow> m \<in> set xs | _ \<Rightarrow> False)"

definition isValidFileType :: "upload_file option \<Rightarrow> jsval \<Rightarrow> bool" where
  "isValidFileType file0 fileType =
     (case file0 of
        None \<Rightarrow> False
      | Some f \<Rightarrow>
          if \<not> truthy (mimetype f) then False
          else (case getFileTypeConfig fileType of
                  None \<Rightarrow> False
                | Some config \<Rightarrow> array_includes (allowedMimeTypes config) (mimetype f)))"

text \<open>\<^verbatim>\<open>NaN <= maxSize\<close> is false.\<close>

definition isValidFileSize :: "upload_file option \<Rightarrow> int \<Rightarrow> bool" where
  "isValidFileSize file0 maxSize0 =
     (case file0 of
        None \<Rightarrow> False
      | Some f \<Rightarrow>
          if typeof (file_size f) \<noteq> ''number'' then False
          else (case file_size f of JNum n \<Rightarrow> n \<le> maxSize0 | _ \<Rightarrow> False))"

text \<open>
  \<^verbatim>\<open>Math.round(a / b)\<close> for integers \<open>a\<close> and \<open>b = 1024 * 1024\<close>: the
  quotient by a power of two is exact in binary floating point, and \<^verbatim>\<open>Math.round\<close>
  takes a half upwards.
\<close>

definition Math_round_div :: "int \<Rightarrow> int \<Rightarrow> int" where
  "Math_round_div a b = (2 * a + b) div (2 * b)"

record validation_result =
  isValid :: bool
  error :: "string option"

definition validateFile :: "upload_file option \<Rightarrow> jsval \<Rightarrow> validation_result" where
  "validateFile file0 fileType =
     (case getFileTypeConfig fileType of
        None \<Rightarrow> \<lparr>isValid = False, error = Some (''Unknown file type: '' @ js_to_string fileType)\<rparr>
      | Some config \<Rightarrow>
          if file0 = None then
            \<lparr>isValid = False, error = Some (name config @ '' file is required'')\<rparr>
          else if \<not> isValidFileType file0 fileType then
            \<lparr>isValid = False, error = Some (errorMessage config)\<rparr>
          else if \<not> isValidFileSize file0 (maxSize config) then
            (let maxSizeMB = Math_round_div (maxSize config) (1024 * 1024)
             in \<lparr>isValid = False,
                 error = Some (''File size exceeds '' @ int_to_string maxSizeMB @ ''MB limit'')\<rparr>)
          else \<lparr>isValid = True, error = None\<rparr>)"

text \<open>\<^verbatim>\<open>buffer.toString('base64')\<close>.\<close>

definition b64 :: "nat \<Rightarrow> char" where
  "b64 n = ''ABCDEFGHIJKLMNOPQRSTUVWXYZabcdefghijklmnopqrstuvwxyz0123456789+/'' ! n"

fun base64 :: "8 word list \<Rightarrow> string" where
  "base64 [] = []"
| "base64 [a] =
     (let x = unat a in [b64 (x div 4), b64 (x mod 4 * 16), CHR ''='', CHR ''=''])"
| "base64 [a, b] =
     (let x = unat a; y = unat b
      in [b64 (x div 4), b64 (x mod 4 * 16 + y div 16), b64 (y mod 16 * 4), CHR ''=''])"
| "base64 (a # b # c # r) =
     (let x = unat a; y = unat b; z = unat c
      in [b64 (x div 4), b64 (x mod 4 * 16 + y div 16), b64 (y mod 16 * 4 + z div 64),
          b64 (z mod 64)]) @ base64 r"

definition prepareFileForAPI :: "upload_file option \<Rightarrow> exn + file_data" where
  "prepareFileForAPI file0 =
     (case file0 of
        None \<Rightarrow> Inl (Error ''Invalid file object - missing buffer or mimetype'')
      | Some f \<Rightarrow>
          (case buffer f of
             None \<Rightarrow> Inl (Error ''Invalid file object - missing buffer or mimetype'')
           | Some bytes \<Rightarrow>
               if \<not> truthy (mimetype f)
               then Inl (Error ''Invalid file object - missing buffer or mimetype'')
               else Inr \<lparr>fd_mimeType = mimetype f, fd_data = base64 bytes\<rparr>))"

text \<open>\<^verbatim>\<open>a || b\<close>.\<close>

definition js_or :: "jsval \<Rightarrow> jsval \<Rightarrow> jsval" where
  "js_or a b = (if truthy a then a else b)"

text \<open>
  \<^verbatim>\<open>formatFileSize\<close> computes with \<^verbatim>\<open>Math.log\<close> and \<^verbatim>\<open>toFixed\<close> in floating
  point; its result is taken as given (the first argument).
\<close>

definition formatFileMetadata ::
  "(jsval \<Rightarrow> string) \<Rightarrow> string \<Rightarrow> upload_file option \<Rightarrow> jsval" where
  "formatFileMetadata formatFileSize now_iso file0 =
     (case file0 of
        None \<Rightarrow> JNull
      | Some f \<Rightarrow>
          JObj [(''originalName'', js_or (originalname f) (JStr ''unknown'')),
                (''mimeType'', js_or (mimetype f) (JStr ''unknown'')),
                (''size'', js_or (file_size f) (JNum 0)),
                (''sizeFormatted'', JStr (formatFileSize (js_or (file_size f) (JNum 0)))),
                (''uploadedAt'', JStr now_iso)])"

definition getAllFileTypeConfigs :: "jsval list" where
  "getAllFileTypeConfigs =
     map (\<lambda>(key, config).
            JObj [(''type'', JStr (toLowerCase key)),
                  (''name'', JStr (name config)),
                  (''maxSize'', JNum (maxSize config)),
                  (''maxSizeMB'', JNum (Math_round_div (maxSize config) (1024 * 1024))),
                  (''allowedMimeTypes'', JArr (map JStr (allowedMimeTypes config))),
                  (''fieldName'', JStr (fieldName config)),
                  (''errorMessage'', JStr (errorMessage config))])
         FILE_TYPES"

section \<open>Request middleware (middleware/validation.js)\<close>

text \<open>
  The request as far as the middleware and the handlers read it. \<open>body\<close> is
  \<^const>\<open>None\<close> when \<^verbatim>\<open>req.body\<close> is \<^verbatim>\<open>undefined\<close>, and otherwise the own
  properties of the parsed object; \<open>remoteAddress\<close> is
  \<^verbatim>\<open>req.connection.remoteAddress\<close>.
\<close>

record request =
  ip :: jsval
  remoteAddress :: jsval
  body :: "(string \<times> jsval) list option"
  req_file :: "upload_file option"

text \<open>A middleware either calls \<^verbatim>\<open>next()\<close> or answers.\<close>

datatype outcome = Next | Responded response

definition validatePrompt :: "string \<Rightarrow> request \<Rightarrow> exn + (request \<times> outcome)" where
  "validatePrompt now_iso req =
     (case body req of
        None \<Rightarrow> Inl (TypeError ''Cannot destructure property 'prompt' of 'req.body' as it is undefined.'')
      | Some b \<Rightarrow>
          (let prompt = js_prop (JObj b) ''prompt'' in
           if \<not> truthy prompt then
             Inr (req, Responded (sendValidationError
                    (JStr ''Prompt is required in the request body'') JUndefined now_iso))
           else case prompt of
             JStr s \<Rightarrow>
               if length (trim s) = 0 then
                 Inr (req, Responded (sendValidationError
                        (JStr ''Prompt cannot be empty'') JUndefined now_iso))
               else if length s > 10000 then
                 Inr (req, Responded (sendValidationError
                        (JStr ''Prompt is too long (maximum 10,000 characters)'') JUndefined now_iso))
               else Inr (req\<lparr>body := Some (AList.update ''prompt'' (JStr (trim s)) b)\<rparr>, Next)
           | _ \<Rightarrow>
               Inr (req, Responded (sendValidationError
                      (JStr ''Prompt must be a string'') JUndefined now_iso))))"

text \<open>
  \<^verbatim>\<open>req.body.hasOwnProperty(key)\<close> looks the method up on the body itself first: it
  is inherited from \<^verbatim>\<open>Object.prototype\<close> unless the body has an own property of
  that name. A parsed body holds data only, so an own property of that name is not
  callable and the call throws.
\<close>

definition hasOwnProperty :: "(string \<times> jsval) list \<Rightarrow> string \<Rightarrow> exn + bool" where
  "hasOwnProperty obj key =
     (case map_of obj ''hasOwnProperty'' of
        Some v \<Rightarrow> Inl (TypeError ''req.body.hasOwnProperty is not a function'')
      | None \<Rightarrow> Inr (key \<in> fst ` set obj))"

definition dangerousKeys :: "string list" where
  "dangerousKeys = [''__proto__'', ''constructor'', ''prototype'']"

text \<open>The first \<^verbatim>\<open>forEach\<close>: an exception leaves the loop and the middleware.\<close>

fun remove_keys :: "string list \<Rightarrow> (string \<times> jsval) list \<Rightarrow> exn + (string \<times> jsval) list" where
  "remove_keys [] b = Inr b"
| "remove_keys (key # keys) b =
     (case hasOwnProperty b key of
        Inl e \<Rightarrow> Inl e
      | Inr has \<Rightarrow> remove_keys keys (if has then AList.delete key b else b))"

text \<open>The second \<^verbatim>\<open>forEach\<close>, over \<^verbatim>\<open>Object.keys(req.body)\<close>.\<close>

definition trim_key :: "string \<Rightarrow> (string \<times> jsval) list \<Rightarrow> (string \<times> jsval) list" where
  "trim_key key b =
     (case js_prop (JObj b) key of
        JStr s \<Rightarrow> AList.update key (JStr (trim s)) b
      | _ \<Rightarrow> b)"

definition trim_values :: "(string \<times> jsval) list \<Rightarrow> (string \<times> jsval) list" where
  "trim_values b = fold trim_key (map fst b) b"

definition sanitizeRequestBody :: "request \<Rightarrow> exn + request" where
  "sanitizeRequestBody req =
     (case body req of
        None \<Rightarrow> Inr req
      | Some b \<Rightarrow>
          (case remove_keys dangerousKeys b of
             Inl e \<Rightarrow> Inl e
           | Inr b1 \<Rightarrow> Inr (req\<lparr>body := Some (trim_values b1)\<rparr>)))"

subsection \<open>Rate limiter\<close>

record client_data =
  count :: int
  resetTime :: int

text \<open>
  The gate that \<^verbatim>\<open>createRateLimiter(maxRequests, timeWindow)\<close> returns, with the
  \<^verbatim>\<open>Map\<close> of its closure passed in and returned. \<open>now\<close> is \<^verbatim>\<open>Date.now()\<close>.
\<close>

definition clientId :: "request \<Rightarrow> jsval" where
  "clientId req = js_or (ip req) (remoteAddress req)"

definition rateLimiter ::
  "int \<Rightarrow> int \<Rightarrow> (jsval \<rightharpoonup> client_data) \<Rightarrow> request \<Rightarrow> int \<Rightarrow> string
     \<Rightarrow> (jsval \<rightharpoonup> client_data) \<times> outcome" where
  "rateLimiter maxRequests timeWindow requests req now now_iso =
     (case requests (clientId req) of
        None \<Rightarrow>
          (requests(clientId req \<mapsto> \<lparr>count = 1, resetTime = now + timeWindow\<rparr>), Next)
      | Some clientData \<Rightarrow>
          if now > resetTime clientData then
            (requests(clientId req \<mapsto> \<lparr>count = 1, resetTime = now + timeWindow\<rparr>), Next)
          else if count clientData \<ge> maxRequests then
            (requests, Responded (sendValidationError
                (JStr ''Too many requests. Please try again later.'') (JNum 429) now_iso))
          else
            (requests(clientId req \<mapsto> clientData\<lparr>count := count clientData + 1\<rparr>), Next))"

text \<open>
  Consecutive calls of one gate, each with its request and its clock reading; the
  outcomes are listed in call order.
\<close>

fun rateLimiter_calls ::
  "int \<Rightarrow> int \<Rightarrow> (jsval \<rightharpoonup> client_data) \<Rightarrow> (request \<times> int) list \<Rightarrow> string
     \<Rightarrow> (jsval \<rightharpoonup> client_data) \<times> outcome list" where
  "rateLimiter_calls maxRequests timeWindow requests [] now_iso = (requests, [])"
| "rateLimiter_calls maxRequests timeWindow requests ((req, now) # rest) now_iso =
     (case rateLimiter maxRequests timeWindow requests req now now_iso of
        (requests1, out) \<Rightarrow>
          (case rateLimiter_calls maxRequests timeWindow requests1 rest now_iso of
             (requests2, outs) \<Rightarrow> (requests2, out # outs)))"

section \<open>Generation orchestrator (modules/genAI/controller.js)\<close>

text \<open>
  What a handler takes from outside the program: the execution mode, the clock (one
  reading for the whole request), the stack text that the engine gives a thrown error,
  the floating-point size formatter, and the two calls of the upstream service, which
  return the generated text or throw.
\<close>

record runtime =
  rt_NODE_ENV :: node_env
  rt_now_iso :: string
  rt_stack :: "exn \<Rightarrow> string"
  rt_formatFileSize :: "jsval \<Rightarrow> string"
  rt_generateText :: "string \<Rightarrow> exn + string"
  rt_generateFromFile :: "string \<Rightarrow> file_data \<Rightarrow> exn + string"

definition error_object :: "runtime \<Rightarrow> exn \<Rightarrow> error_obj" where
  "error_object rt e = \<lparr>err_message = JStr (exn_message e), err_stack = JStr (rt_stack rt e)\<rparr>"

definition callGeminiAPI ::
  "runtime \<Rightarrow> string \<Rightarrow> file_data option \<Rightarrow> event list \<times> (exn + string)" where
  "callGeminiAPI rt prompt fileData =
     (case fileData of
        Some fd \<Rightarrow>
          ([UpstreamCalled prompt (Some fd)],
           case rt_generateFromFile rt prompt fd of
             Inl e \<Rightarrow> Inl (Error (''Gemini API Error: '' @ exn_message e))
           | Inr text \<Rightarrow> Inr text)
      | None \<Rightarrow>
          ([UpstreamCalled prompt None],
           case rt_generateText rt prompt of
             Inl e \<Rightarrow> Inl (Error (''Gemini API Error: '' @ exn_message e))
           | Inr text \<Rightarrow> Inr text))"

text \<open>\<^verbatim>\<open>withPerformanceMonitoring(callGeminiAPI, 'Gemini API Call')\<close> (utils/logger.js).\<close>

definition performanceMonitoredGenerate ::
  "runtime \<Rightarrow> string \<Rightarrow> file_data option \<Rightarrow> event list \<times> (exn + string)" where
  "performanceMonitoredGenerate rt prompt fileData =
     (case callGeminiAPI rt prompt fileData of
        (evs, Inr result) \<Rightarrow> (evs @ [ConsoleLog ''[PERFORMANCE] Gemini API Call''], Inr result)
      | (evs, Inl e) \<Rightarrow> (evs @ [ConsoleError ''[PERFORMANCE] Gemini API Call FAILED''], Inl e))"

text \<open>
  \<^verbatim>\<open>logRequest\<close> reads \<^verbatim>\<open>req.body.prompt\<close>, which throws when the body is
  \<^verbatim>\<open>undefined\<close>.
\<close>

definition logRequest :: "request \<Rightarrow> exn + event" where
  "logRequest req =
     (case body req of
        None \<Rightarrow> Inl (TypeError ''Cannot read properties of undefined (reading 'prompt')'')
      | Some b \<Rightarrow> Inr (ConsoleLog ''REQUEST''))"

text \<open>The \<^verbatim>\<open>try\<close> block of \<^verbatim>\<open>handleFileRequest\<close>: what it did, and its answer or throw.\<close>

definition handleFileRequest_try ::
  "runtime \<Rightarrow> request \<Rightarrow> string \<Rightarrow> string \<Rightarrow> event list \<times> (exn + response)" where
  "handleFileRequest_try rt req endpoint fileType =
     (case logRequest req of
        Inl e \<Rightarrow> ([], Inl e)
      | Inr logged \<Rightarrow>
          (let prompt = js_prop (JObj (case body req of Some b \<Rightarrow> b | None \<Rightarrow> [])) ''prompt'';
               file0 = req_file req
           in case prompt of
                JStr s \<Rightarrow>
                  if \<not> truthy prompt \<or> trim s = [] then
                    ([logged], Inl (Error ''Valid prompt is required''))
                  else
                    (let validation = validateFile file0 (JStr fileType) in
                     if \<not> isValid validation then
                       ([logged, ConsoleWarn ''VALIDATION_ERROR''],
                        Inr (sendValidationError
                               (case error validation of Some m \<Rightarrow> JStr m | None \<Rightarrow> JNull)
                               JUndefined (rt_now_iso rt)))
                     else
                       (case prepareFileForAPI file0 of
                          Inl e \<Rightarrow> ([logged], Inl e)
                        | Inr fileData \<Rightarrow>
                            (case performanceMonitoredGenerate rt (trim s) (Some fileData) of
                               (evs, Inl e) \<Rightarrow> (logged # Encoded fileData # evs, Inl e)
                             | (evs, Inr generatedText) \<Rightarrow>
                                 (let meta0 = formatFileMetadata (rt_formatFileSize rt)
                                                (rt_now_iso rt) file0
                                  in (logged # Encoded fileData # evs @ [ConsoleLog ''SUCCESS''],
                                      Inr (sendSuccessResponse (JStr generatedText)
                                             (JStr (''Content generated successfully from '' @ fileType))
                                             meta0 JUndefined (rt_now_iso rt)))))))
              | _ \<Rightarrow> ([logged], Inl (Error ''Valid prompt is required''))))"

definition handleFileRequest ::
  "runtime \<Rightarrow> request \<Rightarrow> string \<Rightarrow> string \<Rightarrow> event list \<times> response" where
  "handleFileRequest rt req endpoint fileType =
     (case handleFileRequest_try rt req endpoint fileType of
        (evs, Inr sent) \<Rightarrow> (evs, sent)
      | (evs, Inl e) \<Rightarrow>
          (case sendInternalServerError (rt_NODE_ENV rt) (error_object rt e)
                  (JStr (''Failed to generate content from '' @ fileType)) (rt_now_iso rt) of
             (evs1, sent) \<Rightarrow> (evs @ [ConsoleError ''ERROR''] @ evs1, sent)))"

definition generateImage :: "runtime \<Rightarrow> request \<Rightarrow> event list \<times> response" where
  "generateImage rt req = handleFileRequest rt req ''generate-from-image'' ''image''"

definition generateDocument :: "runtime \<Rightarrow> request \<Rightarrow> event list \<times> response" where
  "generateDocument rt req = handleFileRequest rt req ''generate-from-document'' ''document''"

definition generateAudio :: "runtime \<Rightarrow> request \<Rightarrow> event list \<times> response" where
  "generateAudio rt req = handleFileRequest rt req ''generate-from-audio'' ''audio''"

definition generateVideo :: "runtime \<Rightarrow> request \<Rightarrow> event list \<times> response" where
  "generateVideo rt req = handleFileRequest rt req ''generate-from-video'' ''video''"

subsection \<open>File-types introspection\<close>

text \<open>A configuration of the registry as the object it is.\<close>

definition config_object :: "file_type_config \<Rightarrow> jsval" where
  "config_object config =
     JObj [(''name'', JStr (name config)),
           (''maxSize'', JNum (maxSize config)),
           (''allowedMimeTypes'', JArr (map JStr (allowedMimeTypes config))),
           (''fieldName'', JStr (fieldName config)),
           (''errorMessage'', JStr (errorMessage config))]"

text \<open>
  \<^verbatim>\<open>Object.entries(v)\<close> throws on \<^verbatim>\<open>null\<close> and \<^verbatim>\<open>undefined\<close>; an array or a
  string has its indices as keys; other primitives have no entries.
\<close>

fun Object_entries :: "jsval \<Rightarrow> exn + (string \<times> jsval) list" where
  "Object_entries JUndefined = Inl (TypeError ''Cannot convert undefined or null to object'')"
| "Object_entries JNull = Inl (TypeError ''Cannot convert undefined or null to object'')"
| "Object_entries (JObj kvs) = Inr kvs"
| "Object_entries (JArr xs) = Inr (zip (map nat_to_string [0 ..< length xs]) xs)"
| "Object_entries (JStr s) = Inr (zip (map nat_to_string [0 ..< length s]) (map (\<lambda>c. JStr [c]) s))"
| "Object_entries v = Inr []"

text \<open>
  \<^verbatim>\<open>Math.round(x / (1024 * 1024))\<close> on a property value: \<^verbatim>\<open>undefined\<close> and
  \<^verbatim>\<open>NaN\<close> give \<^verbatim>\<open>NaN\<close> (the callback meets no other non-number).
\<close>

fun Math_round_MB :: "jsval \<Rightarrow> jsval" where
  "Math_round_MB (JNum n) = JNum (Math_round_div n (1024 * 1024))"
| "Math_round_MB v = JNaN"

definition fileTypeInfo :: "string \<times> jsval \<Rightarrow> jsval" where
  "fileTypeInfo entry =
     (case entry of (key, config) \<Rightarrow>
        JObj [(''type'', JStr (toLowerCase key)),
              (''name'', js_prop config ''name''),
              (''maxSize'', js_prop config ''maxSize''),
              (''maxSizeMB'', Math_round_MB (js_prop config ''maxSize'')),
              (''allowedMimeTypes'', js_prop config ''allowedMimeTypes''),
              (''fieldName'', js_prop config ''fieldName'')])"

text \<open>
  The handler calls \<^verbatim>\<open>getFileTypeConfig()\<close> with no argument, so the parameter is
  \<^verbatim>\<open>undefined\<close>; a \<^verbatim>\<open>null\<close> result is what \<^verbatim>\<open>Object.entries\<close> receives.
\<close>

definition getSupportedFileTypes :: "runtime \<Rightarrow> event list \<times> response" where
  "getSupportedFileTypes rt =
     (case Object_entries (case getFileTypeConfig JUndefined of
                             None \<Rightarrow> JNull
                           | Some config \<Rightarrow> config_object config) of
        Inr entries \<Rightarrow>
          ([], sendSuccessResponse (JArr (map fileTypeInfo entries))
                 (JStr ''Supported file types retrieved successfully'')
                 JUndefined JUndefined (rt_now_iso rt))
      | Inl e \<Rightarrow>
          sendInternalServerError (rt_NODE_ENV rt) (error_object rt e)
            (JStr ''Failed to retrieve file types information'') (rt_now_iso rt))"

section \<open>Abbreviations and example inputs\<close>

text \<open>The answer of the rate limiter when it refuses a call.\<close>

definition too_many :: "string \<Rightarrow> response" where
  "too_many now_iso =
     sendValidationError (JStr ''Too many requests. Please try again later.'') (JNum 429) now_iso"

text \<open>A client, used where a property is checked on a concrete request.\<close>

definition example_client :: request where
  "example_client = \<lparr>ip = JStr ''203.0.113.7'', remoteAddress = JStr ''203.0.113.7'',
                      body = Some [], req_file = None\<rparr>"

text \<open>A request whose body holds just a prompt.\<close>

definition prompt_request :: "jsval \<Rightarrow> request" where
  "prompt_request p = \<lparr>ip = JStr ''203.0.113.7'', remoteAddress = JStr ''203.0.113.7'',
                        body = Some [(''prompt'', p)], req_file = None\<rparr>"

text \<open>What the sanitizer is to do to a value: trim a string, keep anything else.\<close>

fun trimmed :: "jsval \<Rightarrow> jsval" where
  "trimmed (JStr s) = JStr (trim s)"
| "trimmed v = v"

text \<open>
  The three conditions under which a file is to be valid for a configuration: present,
  declared MIME type in the allow-list, size a number not above the ceiling.
\<close>

definition acceptable :: "file_type_config \<Rightarrow> upload_file option \<Rightarrow> bool" where
  "acceptable C f =
     (case f of
        None \<Rightarrow> False
      | Some file \<Rightarrow>
          (case mimetype file of JStr m \<Rightarrow> m \<in> set (allowedMimeTypes C) | _ \<Rightarrow> False)
          \<and> (case file_size file of JNum n \<Rightarrow> n \<le> maxSize C | _ \<Rightarrow> False))"

text \<open>The two kinds of event that the file flow must not reach before validation.\<close>

fun is_upstream :: "event \<Rightarrow> bool" where
  "is_upstream (UpstreamCalled p fd) = True"
| "is_upstream ev = False"

fun is_encoded :: "event \<Rightarrow> bool" where
  "is_encoded (Encoded fd) = True"
| "is_encoded ev = False"

text \<open>A production runtime whose upstream service answers.\<close>

definition example_runtime :: runtime where
  "example_runtime =
     \<lparr>rt_NODE_ENV = Some ''production'', rt_now_iso = ''2023-01-01T00:00:00.000Z'',
      rt_stack = (\<lambda>e. ''Error''), rt_formatFileSize = (\<lambda>v. ''1 KB''),
      rt_generateText = (\<lambda>p. Inr ''AI is...''),
      rt_generateFromFile = (\<lambda>p fd. Inr ''A cat.'')\<rparr>"

text \<open>A 15 MB upload declared as JPEG, with a prompt.\<close>

definition oversized_upload :: request where
  "oversized_upload =
     \<lparr>ip = JStr ''203.0.113.7'', remoteAddress = JStr ''203.0.113.7'',
      body = Some [(''prompt'', JStr ''Describe this image'')],
      req_file = Some \<lparr>originalname = JStr ''cat.jpg'', mimetype = JStr ''image/jpeg'',
                        file_size = JNum (15 * 1024 * 1024), buffer = Some [255, 216, 255]\<rparr>\<rparr>"

section \<open>Properties of the response formatter\<close>

lemma sendErrorResponse_num:
  "sendErrorResponse m (JNum c) e t =
     \<lparr>http_status = JNum c,
      json = \<lparr>status = False, code = JNum c, message = m, data = None, meta = None,
              errors = (if truthy (default_arg JNull e) then Some (default_arg JNull e) else None),
              timestamp = t\<rparr>\<rparr>"
  by (simp add: sendErrorResponse_def default_arg_def Let_def)

lemma default_arg_truthy: "truthy (default_arg JNull v) = truthy v"
  by (simp add: default_arg_def)

lemma default_arg_idem: "truthy v \<Longrightarrow> default_arg JNull v = v"
  by (auto simp: default_arg_def)

text \<open>
  C10. Every response built by \<^verbatim>\<open>sendValidationError\<close> has HTTP status 400 and
  envelope code 400, whatever its arguments; its last argument goes to the \<^verbatim>\<open>errors\<close>
  field when it is truthy (and the field is absent otherwise), never to the status.
\<close>

theorem sendValidationError_always_400:
  "http_status (sendValidationError m ve t) = JNum 400
   \<and> code (json (sendValidationError m ve t)) = JNum 400
   \<and> status (json (sendValidationError m ve t)) = False
   \<and> message (json (sendValidationError m ve t)) = m
   \<and> errors (json (sendValidationError m ve t)) = (if truthy ve then Some ve else None)
   \<and> http_status (sendValidationError m ve t) \<noteq> JNum 429"
  by (simp add: sendValidationError_def sendErrorResponse_num default_arg_truthy default_arg_idem)

theorem sendValidationError_always_400_witness:
  "http_status (sendValidationError (JStr ''Too many requests. Please try again later.'')
                  (JNum 429) ''2023-01-01T00:00:00.000Z'') = JNum 400
   \<and> errors (json (sendValidationError (JStr ''Too many requests. Please try again later.'')
                  (JNum 429) ''2023-01-01T00:00:00.000Z'')) = Some (JNum 429)"
  using sendValidationError_always_400
    [of "JStr ''Too many requests. Please try again later.''" "JNum 429"
        "''2023-01-01T00:00:00.000Z''"]
  by simp

text \<open>
  C8, counterexample. The claim makes \<^verbatim>\<open>meta\<close> present for every non-null argument;
  the builder tests \<^verbatim>\<open>if (meta)\<close>, so the number 0, which is not \<^verbatim>\<open>null\<close>, is
  left out.
\<close>

theorem sendSuccessResponse_meta_counterexample:
  "JNum 0 \<noteq> JNull
   \<and> meta (json (sendSuccessResponse (JStr ''text'') (JStr ''Success'') (JNum 0) (JNum 200)
                   ''2023-01-01T00:00:00.000Z'')) = None"
  by (simp add: sendSuccessResponse_def default_arg_def Let_def)

text \<open>
  C8, as amended. For every data value, message, meta value and status code the success
  builder gives an envelope with status true, code (and HTTP status) equal to the given
  status code, 200 when none is given, the \<^verbatim>\<open>data\<close> key always present, and the
  \<^verbatim>\<open>meta\<close> key present if and only if the meta argument is truthy: every object is
  kept, \<^verbatim>\<open>null\<close> and \<^verbatim>\<open>undefined\<close> are left out.
\<close>

theorem sendSuccessResponse_envelope:
  "status (json (sendSuccessResponse d msg m sc t)) = True
   \<and> code (json (sendSuccessResponse d msg m sc t)) = default_arg (JNum 200) sc
   \<and> http_status (sendSuccessResponse d msg m sc t) = default_arg (JNum 200) sc
   \<and> data (json (sendSuccessResponse d msg m sc t)) = Some d
   \<and> (meta (json (sendSuccessResponse d msg m sc t)) \<noteq> None) = truthy m
   \<and> meta (json (sendSuccessResponse d msg m sc t)) = (if truthy m then Some m else None)"
  by (simp add: sendSuccessResponse_def Let_def default_arg_truthy default_arg_idem)

theorem sendSuccessResponse_envelope_witness:
  "code (json (sendSuccessResponse (JStr ''AI is...'') (JStr ''Content generated successfully'')
                 JUndefined JUndefined ''2023-01-01T00:00:00.000Z'')) = JNum 200
   \<and> data (json (sendSuccessResponse (JStr ''AI is...'') (JStr ''Content generated successfully'')
                 JUndefined JUndefined ''2023-01-01T00:00:00.000Z'')) = Some (JStr ''AI is...'')
   \<and> meta (json (sendSuccessResponse (JStr ''AI is...'') (JStr ''Content generated successfully'')
                 JUndefined JUndefined ''2023-01-01T00:00:00.000Z'')) = None"
  using sendSuccessResponse_envelope
    [of "JStr ''AI is...''" "JStr ''Content generated successfully''" JUndefined JUndefined
        "''2023-01-01T00:00:00.000Z''"]
  by (simp add: default_arg_def)

text \<open>
  C6. For every error object and custom message the internal-error responder answers
  with status and code 500; the \<^verbatim>\<open>errors\<close> field holds the error's message and stack
  exactly when the execution mode is \<^verbatim>\<open>development\<close> and the fixed opaque string in
  every other mode, so that outside development two runs with different errors give
  envelopes that agree in everything but the timestamp.
\<close>

theorem sendInternalServerError_leak_boundary:
  "http_status (snd (sendInternalServerError env e m t)) = JNum 500
   \<and> code (json (snd (sendInternalServerError env e m t))) = JNum 500
   \<and> status (json (snd (sendInternalServerError env e m t))) = False
   \<and> message (json (snd (sendInternalServerError env e m t)))
       = default_arg (JStr ''Internal server error'') m
   \<and> errors (json (snd (sendInternalServerError env e m t)))
       = Some (if env = Some ''development''
               then JObj [(''message'', err_message e), (''stack'', err_stack e)]
               else JStr ''Internal server error occurred'')
   \<and> (env \<noteq> Some ''development'' \<longrightarrow>
        (json (snd (sendInternalServerError env e m t)))\<lparr>timestamp := t'\<rparr>
          = json (snd (sendInternalServerError env e' m t')))"
  by (simp add: sendInternalServerError_def Let_def sendErrorResponse_num default_arg_def)

theorem sendInternalServerError_leak_boundary_witness:
  "Some ''production'' \<noteq> Some ''development''
   \<and> errors (json (snd (sendInternalServerError (Some ''production'')
        \<lparr>err_message = JStr ''Gemini API Error: quota'', err_stack = JStr ''Error: at callGeminiAPI''\<rparr>
        (JStr ''Failed to generate content'') ''2023-01-01T00:00:00.000Z'')))
       = Some (JStr ''Internal server error occurred'')
   \<and> (json (snd (sendInternalServerError (Some ''production'')
        \<lparr>err_message = JStr ''Gemini API Error: quota'', err_stack = JStr ''Error: at callGeminiAPI''\<rparr>
        (JStr ''Failed to generate content'') ''2023-01-01T00:00:00.000Z'')))
          \<lparr>timestamp := ''2023-01-01T00:00:05.000Z''\<rparr>
       = json (snd (sendInternalServerError (Some ''production'')
        \<lparr>err_message = JStr ''Valid prompt is required'', err_stack = JStr ''Error: at handleTextRequest''\<rparr>
        (JStr ''Failed to generate content'') ''2023-01-01T00:00:05.000Z''))"
  using sendInternalServerError_leak_boundary
    [of "Some ''production''"
        "\<lparr>err_message = JStr ''Gemini API Error: quota'', err_stack = JStr ''Error: at callGeminiAPI''\<rparr>"
        "JStr ''Failed to generate content''" "''2023-01-01T00:00:00.000Z''"
        "''2023-01-01T00:00:05.000Z''"
        "\<lparr>err_message = JStr ''Valid prompt is required'', err_stack = JStr ''Error: at handleTextRequest''\<rparr>"]
  by simp

section \<open>Properties of the rate limiter\<close>


lemma rateLimiter_first:
  "requests (clientId req) = None \<Longrightarrow>
   rateLimiter N W requests req now t
     = (requests(clientId req \<mapsto> \<lparr>count = 1, resetTime = now + W\<rparr>), Next)"
  by (simp add: rateLimiter_def)

lemma rateLimiter_expired:
  "requests (clientId req) = Some cd \<Longrightarrow> resetTime cd < now \<Longrightarrow>
   rateLimiter N W requests req now t
     = (requests(clientId req \<mapsto> \<lparr>count = 1, resetTime = now + W\<rparr>), Next)"
  by (simp add: rateLimiter_def)

lemma rateLimiter_counted:
  "requests (clientId req) = Some cd \<Longrightarrow> now \<le> resetTime cd \<Longrightarrow> count cd < N \<Longrightarrow>
   rateLimiter N W requests req now t
     = (requests(clientId req \<mapsto> cd\<lparr>count := count cd + 1\<rparr>), Next)"
  by (simp add: rateLimiter_def)

lemma rateLimiter_rejected:
  "requests (clientId req) = Some cd \<Longrightarrow> now \<le> resetTime cd \<Longrightarrow> N \<le> count cd \<Longrightarrow>
   rateLimiter N W requests req now t = (requests, Responded (too_many t))"
  by (simp add: rateLimiter_def too_many_def)

lemma rateLimiter_calls_append:
  "rateLimiter_calls N W requests (xs @ ys) t =
     (case rateLimiter_calls N W requests xs t of
        (requests1, outs1) \<Rightarrow>
          (case rateLimiter_calls N W requests1 ys t of
             (requests2, outs2) \<Rightarrow> (requests2, outs1 @ outs2)))"
  by (induction xs arbitrary: requests) (auto split: prod.splits)

text \<open>Calls of one client inside its window, below the ceiling: all pass and are counted.\<close>

lemma rateLimiter_calls_in_window:
  "requests (clientId req) = Some \<lparr>count = c, resetTime = R\<rparr> \<Longrightarrow>
   \<forall>t \<in> set ts. t \<le> R \<Longrightarrow> c + int (length ts) \<le> N \<Longrightarrow>
   rateLimiter_calls N W requests (map (Pair req) ts) now_iso
     = (requests(clientId req \<mapsto> \<lparr>count = c + int (length ts), resetTime = R\<rparr>),
        replicate (length ts) Next)"
proof (induction ts arbitrary: requests c)
  case Nil
  then show ?case by (simp add: fun_upd_idem)
next
  case (Cons a ts)
  let ?cd = "\<lparr>count = c, resetTime = R\<rparr>"
  have step: "rateLimiter N W requests req a now_iso
                = (requests(clientId req \<mapsto> \<lparr>count = c + 1, resetTime = R\<rparr>), Next)"
    using rateLimiter_counted [of requests req ?cd a N W now_iso] Cons.prems by simp
  have rest: "rateLimiter_calls N W (requests(clientId req \<mapsto> \<lparr>count = c + 1, resetTime = R\<rparr>))
                (map (Pair req) ts) now_iso
                = ((requests(clientId req \<mapsto> \<lparr>count = c + 1, resetTime = R\<rparr>))
                      (clientId req \<mapsto> \<lparr>count = c + 1 + int (length ts), resetTime = R\<rparr>),
                   replicate (length ts) Next)"
    using Cons.prems by (intro Cons.IH) auto
  show ?case using step rest by (auto simp add: add.assoc intro!: ext)
qed

text \<open>...and once the ceiling is reached, every further call inside the window is refused.\<close>

lemma rateLimiter_calls_full:
  "requests (clientId req) = Some \<lparr>count = c, resetTime = R\<rparr> \<Longrightarrow>
   \<forall>t \<in> set ts. t \<le> R \<Longrightarrow> N \<le> c \<Longrightarrow>
   rateLimiter_calls N W requests (map (Pair req) ts) now_iso
     = (requests, replicate (length ts) (Responded (too_many now_iso)))"
proof (induction ts)
  case Nil
  then show ?case by simp
next
  case (Cons a ts)
  have "rateLimiter N W requests req a now_iso = (requests, Responded (too_many now_iso))"
    using rateLimiter_rejected [of requests req "\<lparr>count = c, resetTime = R\<rparr>" a N W now_iso]
      Cons.prems by simp
  then show ?case using Cons by simp
qed

text \<open>A fresh client: the first call opens the window; the entry after any further calls inside it.\<close>

lemma rateLimiter_calls_fresh:
  assumes fresh: "requests (clientId req) = None"
    and inside: "\<forall>t \<in> set ts. t \<le> t0 + W"
    and le: "1 + int (length ts) \<le> N"
  shows "rateLimiter_calls N W requests ((req, t0) # map (Pair req) ts) now_iso
     = (requests(clientId req \<mapsto> \<lparr>count = 1 + int (length ts), resetTime = t0 + W\<rparr>),
        replicate (Suc (length ts)) Next)"
proof -
  let ?r1 = "requests(clientId req \<mapsto> \<lparr>count = 1, resetTime = t0 + W\<rparr>)"
  have "rateLimiter_calls N W ?r1 (map (Pair req) ts) now_iso
          = (?r1(clientId req \<mapsto> \<lparr>count = 1 + int (length ts), resetTime = t0 + W\<rparr>),
             replicate (length ts) Next)"
    using inside le by (intro rateLimiter_calls_in_window) auto
  then show ?thesis
    using rateLimiter_first [of requests req N W t0 now_iso] fresh by simp
qed

lemma rateLimiter_calls_fresh_full:
  assumes fresh: "requests (clientId req) = None"
    and N: "1 \<le> N"
    and inside: "\<forall>t \<in> set ts. t \<le> t0 + W"
    and len: "int (length ts) = N"
  shows "snd (rateLimiter_calls N W requests ((req, t0) # map (Pair req) ts) now_iso)
     = replicate (nat N) Next @ [Responded (too_many now_iso)]"
proof -
  from len N have "ts \<noteq> []" by auto
  then obtain us u where ts: "ts = us @ [u]" by (metis rev_exhaust)
  with len have lus: "1 + int (length us) = N" by simp
  have in_us: "\<forall>t \<in> set us. t \<le> t0 + W" and u: "u \<le> t0 + W"
    using inside ts by auto
  let ?r = "requests(clientId req \<mapsto> \<lparr>count = N, resetTime = t0 + W\<rparr>)"
  have first: "rateLimiter_calls N W requests ((req, t0) # map (Pair req) us) now_iso
                 = (?r, replicate (Suc (length us)) Next)"
    using rateLimiter_calls_fresh [of requests req us t0 W N now_iso] fresh in_us lus by simp
  have last: "rateLimiter N W ?r req u now_iso = (?r, Responded (too_many now_iso))"
    using rateLimiter_rejected [of ?r req "\<lparr>count = N, resetTime = t0 + W\<rparr>" u N W now_iso] u
    by simp
  have "(req, t0) # map (Pair req) ts = ((req, t0) # map (Pair req) us) @ [(req, u)]"
    using ts by simp
  then have "rateLimiter_calls N W requests ((req, t0) # map (Pair req) ts) now_iso
               = (?r, replicate (Suc (length us)) Next @ [Responded (too_many now_iso)])"
    using first last by (simp only: rateLimiter_calls_append) simp
  moreover have "Suc (length us) = nat N" using lus by simp
  ultimately show ?thesis by simp
qed


lemma rateLimiter_calls_window_entry:
  "requests (clientId req) = Some \<lparr>count = c, resetTime = R\<rparr> \<Longrightarrow>
   \<forall>t \<in> set ts. t \<le> R \<Longrightarrow> c \<le> N \<Longrightarrow>
   fst (rateLimiter_calls N W requests (map (Pair req) ts) now_iso)
     = requests(clientId req \<mapsto> \<lparr>count = min (c + int (length ts)) N, resetTime = R\<rparr>)"
proof (induction ts arbitrary: requests c)
  case Nil
  then show ?case by (simp add: fun_upd_idem min_def)
next
  case (Cons a ts)
  show ?case
  proof (cases "c < N")
    case True
    let ?r1 = "requests(clientId req \<mapsto> \<lparr>count = c + 1, resetTime = R\<rparr>)"
    have step: "rateLimiter N W requests req a now_iso = (?r1, Next)"
      using rateLimiter_counted [of requests req "\<lparr>count = c, resetTime = R\<rparr>" a N W now_iso]
        Cons.prems True by simp
    have "fst (rateLimiter_calls N W ?r1 (map (Pair req) ts) now_iso)
            = ?r1(clientId req \<mapsto> \<lparr>count = min (c + 1 + int (length ts)) N, resetTime = R\<rparr>)"
      using Cons.prems True by (intro Cons.IH) auto
    then show ?thesis using step
      by (auto simp add: add.assoc split: prod.splits intro!: ext)
  next
    case False
    with Cons.prems have eq: "c = N" by simp
    have step: "rateLimiter N W requests req a now_iso = (requests, Responded (too_many now_iso))"
      using rateLimiter_rejected [of requests req "\<lparr>count = c, resetTime = R\<rparr>" a N W now_iso]
        Cons.prems eq by simp
    have "fst (rateLimiter_calls N W requests (map (Pair req) ts) now_iso)
            = requests(clientId req \<mapsto> \<lparr>count = min (c + int (length ts)) N, resetTime = R\<rparr>)"
      using Cons.prems by (intro Cons.IH) auto
    then show ?thesis using step eq
      by (auto simp add: min_def split: prod.splits intro!: ext)
  qed
qed

lemma rateLimiter_calls_fresh_entry:
  assumes fresh: "requests (clientId req) = None"
    and N: "1 \<le> N"
    and inside: "\<forall>t \<in> set ts. t \<le> t0 + W"
  shows "fst (rateLimiter_calls N W requests ((req, t0) # map (Pair req) ts) now_iso)
     = requests(clientId req \<mapsto> \<lparr>count = min (1 + int (length ts)) N, resetTime = t0 + W\<rparr>)"
proof -
  let ?r1 = "requests(clientId req \<mapsto> \<lparr>count = 1, resetTime = t0 + W\<rparr>)"
  have "fst (rateLimiter_calls N W ?r1 (map (Pair req) ts) now_iso)
          = ?r1(clientId req \<mapsto> \<lparr>count = min (1 + int (length ts)) N, resetTime = t0 + W\<rparr>)"
    using inside N by (intro rateLimiter_calls_window_entry) auto
  then show ?thesis
    using rateLimiter_first [of requests req N W t0 now_iso] fresh
    by (auto split: prod.splits)
qed

text \<open>
  C4, counterexample. With ceiling 1 and window 10, a second call at the first call's
  time plus the window is refused, where the claim has it allowed and the count reset;
  and with ceiling 0 the first call, which is call number N + 1, is allowed.
\<close>

theorem rateLimiter_boundary_counterexample:
  "snd (rateLimiter_calls 1 10 Map.empty [(example_client, 0), (example_client, 0 + 10)] ''t'')
     = [Next, Responded (too_many ''t'')]
   \<and> snd (rateLimiter 0 10 Map.empty example_client 0 ''t'') = Next"
  by (simp add: rateLimiter_def too_many_def)

text \<open>
  C4, as amended. For a ceiling \<open>N \<ge> 1\<close>, a window \<open>W\<close> and one client with no
  entry yet, whose first call is at \<open>t0\<close> and whose further calls are at times up to
  \<open>t0 + W\<close>: call number \<open>N + 1\<close> is refused after \<open>N\<close> allowed calls; the
  entry keeps the reset time \<open>t0 + W\<close> and a count that has grown by one per allowed
  call up to \<open>N\<close>; a call at a time strictly after \<open>t0 + W\<close> is allowed and stores
  count 1 with a new window. For any stored entry, a call is a reset to count 1 exactly
  when \<open>now > resetTime\<close>; otherwise the count is compared with \<open>N\<close> and either
  incremented or the call refused.
\<close>

theorem rateLimiter_fixed_window:
  assumes N: "1 \<le> N"
    and fresh: "requests (clientId req) = None"
    and inside: "\<forall>t \<in> set ts. t \<le> t0 + W"
  shows "(int (length ts) = N \<longrightarrow>
            snd (rateLimiter_calls N W requests ((req, t0) # map (Pair req) ts) now_iso)
              = replicate (nat N) Next @ [Responded (too_many now_iso)])
       \<and> fst (rateLimiter_calls N W requests ((req, t0) # map (Pair req) ts) now_iso)
           = requests(clientId req \<mapsto>
               \<lparr>count = min (1 + int (length ts)) N, resetTime = t0 + W\<rparr>)
       \<and> (\<forall>now. t0 + W < now \<longrightarrow>
            rateLimiter N W
                (fst (rateLimiter_calls N W requests ((req, t0) # map (Pair req) ts) now_iso))
                req now now_iso
              = (requests(clientId req \<mapsto> \<lparr>count = 1, resetTime = now + W\<rparr>), Next))
       \<and> (\<forall>m cd now. m (clientId req) = Some cd \<longrightarrow>
             (resetTime cd < now \<longrightarrow>
                rateLimiter N W m req now now_iso
                  = (m(clientId req \<mapsto> \<lparr>count = 1, resetTime = now + W\<rparr>), Next))
           \<and> (now \<le> resetTime cd \<and> count cd < N \<longrightarrow>
                rateLimiter N W m req now now_iso
                  = (m(clientId req \<mapsto> cd\<lparr>count := count cd + 1\<rparr>), Next))
           \<and> (now \<le> resetTime cd \<and> N \<le> count cd \<longrightarrow>
                rateLimiter N W m req now now_iso = (m, Responded (too_many now_iso))))"
proof (intro conjI allI impI)
  assume "int (length ts) = N"
  then show "snd (rateLimiter_calls N W requests ((req, t0) # map (Pair req) ts) now_iso)
              = replicate (nat N) Next @ [Responded (too_many now_iso)]"
    using rateLimiter_calls_fresh_full [of requests req N ts t0 W now_iso] N fresh inside by simp
next
  show entry: "fst (rateLimiter_calls N W requests ((req, t0) # map (Pair req) ts) now_iso)
           = requests(clientId req \<mapsto>
               \<lparr>count = min (1 + int (length ts)) N, resetTime = t0 + W\<rparr>)"
    using rateLimiter_calls_fresh_entry [of requests req N ts t0 W now_iso] N fresh inside by simp
  fix now assume "t0 + W < now"
  then show "rateLimiter N W
                (fst (rateLimiter_calls N W requests ((req, t0) # map (Pair req) ts) now_iso))
                req now now_iso
              = (requests(clientId req \<mapsto> \<lparr>count = 1, resetTime = now + W\<rparr>), Next)"
    unfolding entry by (simp add: rateLimiter_def)
next
  fix m :: "jsval \<Rightarrow> client_data option" and cd :: client_data and now :: int
  assume "m (clientId req) = Some cd" "resetTime cd < now"
  then show "rateLimiter N W m req now now_iso
                  = (m(clientId req \<mapsto> \<lparr>count = 1, resetTime = now + W\<rparr>), Next)"
    by (rule rateLimiter_expired)
next
  fix m :: "jsval \<Rightarrow> client_data option" and cd :: client_data and now :: int
  assume "m (clientId req) = Some cd" "now \<le> resetTime cd \<and> count cd < N"
  then show "rateLimiter N W m req now now_iso
                  = (m(clientId req \<mapsto> cd\<lparr>count := count cd + 1\<rparr>), Next)"
    by (simp add: rateLimiter_counted)
next
  fix m :: "jsval \<Rightarrow> client_data option" and cd :: client_data and now :: int
  assume "m (clientId req) = Some cd" "now \<le> resetTime cd \<and> N \<le> count cd"
  then show "rateLimiter N W m req now now_iso = (m, Responded (too_many now_iso))"
    by (simp add: rateLimiter_rejected)
qed

theorem rateLimiter_fixed_window_witness:
  "snd (rateLimiter_calls 2 10 Map.empty
          ((example_client, 0) # map (Pair example_client) [5, 10]) ''t'')
     = [Next, Next, Responded (too_many ''t'')]
   \<and> rateLimiter 2 10
        (fst (rateLimiter_calls 2 10 Map.empty
                ((example_client, 0) # map (Pair example_client) [5, 10]) ''t''))
        example_client 11 ''t''
     = (Map.empty(clientId example_client \<mapsto> \<lparr>count = 1, resetTime = 11 + 10\<rparr>), Next)"
proof -
  have h1: "(1::int) \<le> 2" by simp
  have h2: "Map.empty (clientId example_client) = None" by simp
  have h3: "\<forall>t \<in> set [5, 10 :: int]. t \<le> 0 + 10" by simp
  note w = rateLimiter_fixed_window [OF h1 h2 h3, where now_iso = "''t''"]
  have a: "snd (rateLimiter_calls 2 10 Map.empty
          ((example_client, 0) # map (Pair example_client) [5, 10]) ''t'')
     = replicate (nat 2) Next @ [Responded (too_many ''t'')]"
    using w by simp
  have b: "rateLimiter 2 10
        (fst (rateLimiter_calls 2 10 Map.empty
                ((example_client, 0) # map (Pair example_client) [5, 10]) ''t''))
        example_client 11 ''t''
     = (Map.empty(clientId example_client \<mapsto> \<lparr>count = 1, resetTime = 11 + 10\<rparr>), Next)"
    using w by simp
  have c: "replicate (nat 2) Next = [Next, Next]" by (simp add: numeral_2_eq_2)
  show ?thesis using a b c by simp
qed

text \<open>
  C1. With ceiling 100 and a window of 15 minutes, call number 101 of one client inside
  the window is refused, and the answer it receives has HTTP status 400 and envelope
  code 400; the number 429 is in the \<^verbatim>\<open>errors\<close> field. The claim expects status 429.
\<close>

theorem rateLimiter_101st_request_answer:
  "snd (rateLimiter_calls 100 (15 * 60 * 1000) Map.empty
          ((req, 0) # map (Pair req) (replicate 99 1000 @ [15 * 60 * 1000])) now_iso)
     = replicate 100 Next @
       [Responded \<lparr>http_status = JNum 400,
                   json = \<lparr>status = False, code = JNum 400,
                            message = JStr ''Too many requests. Please try again later.'',
                            data = None, meta = None, errors = Some (JNum 429),
                            timestamp = now_iso\<rparr>\<rparr>]"
proof -
  have "snd (rateLimiter_calls 100 (15 * 60 * 1000) Map.empty
          ((req, 0) # map (Pair req) (replicate 99 1000 @ [15 * 60 * 1000])) now_iso)
     = replicate (nat 100) Next @ [Responded (too_many now_iso)]"
    by (rule rateLimiter_calls_fresh_full) auto
  then show ?thesis
    by (simp add: too_many_def sendValidationError_def sendErrorResponse_num default_arg_def)
qed

section \<open>Properties of the prompt validator and the sanitizer\<close>

lemma dropWhile_keeps:
  "xs \<noteq> [] \<Longrightarrow> \<not> P (hd xs) \<Longrightarrow> dropWhile P xs = xs"
  by (cases xs) auto

lemma isWhiteSpace_space: "isWhiteSpace CHR '' ''"
  by (simp add: isWhiteSpace_def)

lemma not_isWhiteSpace_a: "\<not> isWhiteSpace CHR ''a''"
  by (simp add: isWhiteSpace_def)

lemma trim_replicate_a:
  "trim (replicate n CHR ''a'') = replicate n CHR ''a''"
proof (cases n)
  case 0
  then show ?thesis by (simp add: trim_def)
next
  case (Suc m)
  have "dropWhile isWhiteSpace (replicate n CHR ''a'') = replicate n CHR ''a''"
    using Suc not_isWhiteSpace_a by (intro dropWhile_keeps) auto
  then show ?thesis
    by (simp add: trim_def)
qed

lemma trim_replicate_a_space:
  "0 < n \<Longrightarrow> trim (replicate n CHR ''a'' @ '' '') = replicate n CHR ''a''"
proof -
  assume n: "0 < n"
  then obtain m where m: "n = Suc m" by (cases n) auto
  have 1: "dropWhile isWhiteSpace (replicate n CHR ''a'' @ '' '') = replicate n CHR ''a'' @ '' ''"
    using m not_isWhiteSpace_a by (intro dropWhile_keeps) auto
  have 2: "rev (replicate n CHR ''a'' @ '' '') = CHR '' '' # replicate n CHR ''a''"
    by simp
  have 3: "dropWhile isWhiteSpace (replicate n CHR ''a'') = replicate n CHR ''a''"
    using m not_isWhiteSpace_a by (intro dropWhile_keeps) auto
  show ?thesis
    unfolding trim_def 1 2 using isWhiteSpace_space 3 by simp
qed

text \<open>
  C3, counterexample. Ten thousand letters followed by one space: the trimmed length is
  10000, inside the claimed range, but the validator measures the untrimmed length,
  10001, and answers that the prompt is too long.
\<close>

theorem validatePrompt_length_counterexample:
  "length (trim (replicate 10000 CHR ''a'' @ '' '')) = 10000
   \<and> validatePrompt ''t'' (prompt_request (JStr (replicate 10000 CHR ''a'' @ '' '')))
       = Inr (prompt_request (JStr (replicate 10000 CHR ''a'' @ '' '')),
              Responded (sendValidationError
                (JStr ''Prompt is too long (maximum 10,000 characters)'') JUndefined ''t''))"
  by (simp add: trim_replicate_a_space validatePrompt_def prompt_request_def Let_def)

lemma validatePrompt_cases:
  assumes b: "body req = Some b" and p: "js_prop (JObj b) ''prompt'' = p"
  shows "validatePrompt t req =
     (case p of
        JStr s \<Rightarrow>
          if s = [] then Inr (req, Responded (sendValidationError
                    (JStr ''Prompt is required in the request body'') JUndefined t))
          else if trim s = [] then Inr (req, Responded (sendValidationError
                        (JStr ''Prompt cannot be empty'') JUndefined t))
          else if 10000 < length s then Inr (req, Responded (sendValidationError
                        (JStr ''Prompt is too long (maximum 10,000 characters)'') JUndefined t))
          else Inr (req\<lparr>body := Some (AList.update ''prompt'' (JStr (trim s)) b)\<rparr>, Next)
      | _ \<Rightarrow>
          if truthy p then Inr (req, Responded (sendValidationError
                      (JStr ''Prompt must be a string'') JUndefined t))
          else Inr (req, Responded (sendValidationError
                    (JStr ''Prompt is required in the request body'') JUndefined t)))"
  using b p unfolding validatePrompt_def Let_def
  by (cases p) (simp_all del: js_prop.simps)

lemma trim_Nil: "trim [] = []"
  by (simp add: trim_def)

text \<open>
  C3, as amended. For every request with a body and every prompt value \<open>p\<close> in it,
  the validator accepts (calls \<^verbatim>\<open>next\<close>) if and only if \<open>p\<close> is a string whose
  trimmed length is at least 1 and whose untrimmed length is at most 10000; on
  acceptance the trimmed value replaces the prompt in the body; a prompt of exactly
  10000 characters that is not all white space is accepted.
\<close>

theorem validatePrompt_accepts_iff:
  assumes b: "body req = Some b" and p: "js_prop (JObj b) ''prompt'' = p"
  shows "((\<exists>req'. validatePrompt t req = Inr (req', Next))
            = (\<exists>s. p = JStr s \<and> 1 \<le> length (trim s) \<and> length s \<le> 10000))
       \<and> (\<forall>s. p = JStr s \<and> 1 \<le> length (trim s) \<and> length s \<le> 10000 \<longrightarrow>
             validatePrompt t req
               = Inr (req\<lparr>body := Some (AList.update ''prompt'' (JStr (trim s)) b)\<rparr>, Next)
             \<and> js_prop (JObj (AList.update ''prompt'' (JStr (trim s)) b)) ''prompt''
                 = JStr (trim s))
       \<and> (\<forall>s. p = JStr s \<and> length s = 10000 \<and> trim s \<noteq> [] \<longrightarrow>
             (\<exists>req'. validatePrompt t req = Inr (req', Next)))"
proof -
  note c = validatePrompt_cases [OF b p, of t]
  have nonempty: "\<And>s. 1 \<le> length (trim s) \<Longrightarrow> s \<noteq> [] \<and> trim s \<noteq> []"
    using trim_Nil by (auto simp: Suc_le_eq)
  have A: "(\<exists>req'. validatePrompt t req = Inr (req', Next))
            = (\<exists>s. p = JStr s \<and> 1 \<le> length (trim s) \<and> length s \<le> 10000)"
    unfolding c using trim_Nil
    by (cases p) (auto simp: Suc_le_eq not_less)
  have B: "\<forall>s. p = JStr s \<and> 1 \<le> length (trim s) \<and> length s \<le> 10000 \<longrightarrow>
             validatePrompt t req
               = Inr (req\<lparr>body := Some (AList.update ''prompt'' (JStr (trim s)) b)\<rparr>, Next)
             \<and> js_prop (JObj (AList.update ''prompt'' (JStr (trim s)) b)) ''prompt''
                 = JStr (trim s)"
    unfolding c using nonempty by (auto simp: update_conv')
  have C: "\<forall>s. p = JStr s \<and> length s = 10000 \<and> trim s \<noteq> [] \<longrightarrow>
             (\<exists>req'. validatePrompt t req = Inr (req', Next))"
    unfolding c using trim_Nil by auto
  show ?thesis using A B C by blast
qed

theorem validatePrompt_accepts_iff_witness:
  "validatePrompt ''t'' (prompt_request (JStr ''  Explain AI ''))
     = Inr (prompt_request (JStr ''Explain AI''), Next)
   \<and> validatePrompt ''t'' (prompt_request (JStr (replicate 10000 CHR ''a'')))
     = Inr (prompt_request (JStr (replicate 10000 CHR ''a'')), Next)"
proof -
  have t1: "trim ''  Explain AI '' = ''Explain AI''"
    by (simp add: trim_def isWhiteSpace_def)
  have b1: "body (prompt_request (JStr ''  Explain AI '')) = Some [(''prompt'', JStr ''  Explain AI '')]"
    by (simp add: prompt_request_def)
  have p1: "js_prop (JObj [(''prompt'', JStr ''  Explain AI '')]) ''prompt'' = JStr ''  Explain AI ''"
    by simp
  have w1: "validatePrompt ''t'' (prompt_request (JStr ''  Explain AI ''))
     = Inr (prompt_request (JStr ''Explain AI''), Next)"
    using validatePrompt_accepts_iff [OF b1 p1, of "''t''"] t1
    by (simp add: prompt_request_def)
  have b2: "body (prompt_request (JStr (replicate 10000 CHR ''a'')))
              = Some [(''prompt'', JStr (replicate 10000 CHR ''a''))]"
    by (simp add: prompt_request_def)
  have p2: "js_prop (JObj [(''prompt'', JStr (replicate 10000 CHR ''a''))]) ''prompt''
              = JStr (replicate 10000 CHR ''a'')"
    by simp
  have w2: "validatePrompt ''t'' (prompt_request (JStr (replicate 10000 CHR ''a'')))
     = Inr (prompt_request (JStr (replicate 10000 CHR ''a'')), Next)"
    using validatePrompt_accepts_iff [OF b2 p2, of "''t''"] trim_replicate_a [of 10000]
    by (simp add: prompt_request_def)
  show ?thesis using w1 w2 by simp
qed

text \<open>
  C9. A body with an own property named \<^verbatim>\<open>hasOwnProperty\<close> (here with the value 1,
  beside a \<^verbatim>\<open>constructor\<close> key and an untrimmed prompt): the sanitizer throws at its
  first \<^verbatim>\<open>req.body.hasOwnProperty(key)\<close>, so nothing is removed and nothing trimmed.
  The claim expects the three keys removed and the strings trimmed for every body.
\<close>

theorem sanitizeRequestBody_own_hasOwnProperty_throws:
  "sanitizeRequestBody
     \<lparr>ip = JStr ''203.0.113.7'', remoteAddress = JStr ''203.0.113.7'',
      body = Some [(''hasOwnProperty'', JNum 1), (''constructor'', JStr ''x''),
                   (''prompt'', JStr ''  hi  '')],
      req_file = None\<rparr>
     = Inl (TypeError ''req.body.hasOwnProperty is not a function'')"
  by (simp add: sanitizeRequestBody_def dangerousKeys_def hasOwnProperty_def)

lemma dropWhile_idem: "dropWhile P (dropWhile P xs) = dropWhile P xs"
  by (induction xs) auto

lemma dropWhile_rev_dropWhile:
  assumes "u = [] \<or> \<not> P (hd u)"
  shows "dropWhile P (rev (dropWhile P (rev u))) = rev (dropWhile P (rev u))"
proof (cases u)
  case Nil
  then show ?thesis by simp
next
  case (Cons y ys)
  with assms have ny: "\<not> P y" by simp
  have "\<exists>zs. dropWhile P (rev ys @ [y]) = zs @ [y]"
  proof (cases "\<forall>x \<in> set (rev ys). P x")
    case True
    then have "dropWhile P (rev ys @ [y]) = [] @ [y]"
      using ny by (simp add: dropWhile_append)
    then show ?thesis by blast
  next
    case False
    then have "dropWhile P (rev ys @ [y]) = dropWhile P (rev ys) @ [y]"
      by (simp add: dropWhile_append)
    then show ?thesis by blast
  qed
  then obtain zs where zs: "dropWhile P (rev ys @ [y]) = zs @ [y]" by blast
  show ?thesis
    using ny by (simp add: Cons zs)
qed

lemma hd_dropWhile_not: "dropWhile P xs = [] \<or> \<not> P (hd (dropWhile P xs))"
  using hd_dropWhile by blast

lemma trim_idem: "trim (trim s) = trim s"
  unfolding trim_def
  by (simp add: dropWhile_rev_dropWhile [OF hd_dropWhile_not] dropWhile_idem)

lemma trimmed_idem: "trimmed (trimmed v) = trimmed v"
  by (cases v) (simp_all add: trim_idem)

lemma map_of_trim_key:
  "map_of (trim_key a b) k = (if k = a then map_option trimmed (map_of b a) else map_of b k)"
proof (cases "map_of b a")
  case None
  then show ?thesis by (simp add: trim_key_def)
next
  case (Some v)
  then show ?thesis
    by (cases v) (simp_all add: trim_key_def update_conv')
qed

lemma map_of_fold_trim_key:
  "map_of (fold trim_key ks b) k
     = (if k \<in> set ks then map_option trimmed (map_of b k) else map_of b k)"
proof (induction ks arbitrary: b)
  case Nil
  then show ?case by simp
next
  case (Cons a ks)
  show ?case
    by (simp add: Cons.IH map_of_trim_key option.map_comp comp_def trimmed_idem)
qed

lemma map_of_trim_values: "map_of (trim_values b) k = map_option trimmed (map_of b k)"
proof (cases "k \<in> fst ` set b")
  case True
  then show ?thesis by (simp add: trim_values_def map_of_fold_trim_key)
next
  case False
  then have "map_of b k = None" by (simp add: map_of_eq_None_iff)
  with False show ?thesis by (simp add: trim_values_def map_of_fold_trim_key)
qed

lemma remove_keys_unshadowed:
  "map_of b ''hasOwnProperty'' = None \<Longrightarrow>
   \<exists>b'. remove_keys ks b = Inr b' \<and> (\<forall>k. map_of b' k = (if k \<in> set ks then None else map_of b k))"
proof (induction ks arbitrary: b)
  case Nil
  then show ?case by simp
next
  case (Cons key ks)
  let ?b1 = "if key \<in> fst ` set b then AList.delete key b else b"
  have b1: "\<forall>k. map_of ?b1 k = (if k = key then None else map_of b k)"
    by (auto simp: delete_conv' map_of_eq_None_iff)
  then have "map_of ?b1 ''hasOwnProperty'' = None" using Cons.prems by simp
  from Cons.IH [OF this] obtain b' where
    b': "remove_keys ks ?b1 = Inr b'" "\<forall>k. map_of b' k = (if k \<in> set ks then None else map_of ?b1 k)"
    by blast
  have "remove_keys (key # ks) b = Inr b'"
    using Cons.prems b'(1) by (simp add: hasOwnProperty_def)
  moreover have "\<forall>k. map_of b' k = (if k \<in> set (key # ks) then None else map_of b k)"
    using b'(2) b1 by (auto simp: delete_conv' map_of_eq_None_iff)
  ultimately show ?case by blast
qed

lemma remove_keys_shadowed:
  "map_of b ''hasOwnProperty'' = Some v \<Longrightarrow> ks \<noteq> [] \<Longrightarrow>
   remove_keys ks b = Inl (TypeError ''req.body.hasOwnProperty is not a function'')"
  by (cases ks) (simp_all add: hasOwnProperty_def)

text \<open>
  The sanitizer on every other body: it throws exactly on the bodies with an own
  \<^verbatim>\<open>hasOwnProperty\<close>, and on all others it removes the three keys, trims the
  string values and keeps every other property as it is.
\<close>

lemma sanitizeRequestBody_shadowed:
  "body req = Some b \<Longrightarrow> map_of b ''hasOwnProperty'' = Some v \<Longrightarrow>
   sanitizeRequestBody req = Inl (TypeError ''req.body.hasOwnProperty is not a function'')"
  using remove_keys_shadowed [of b v dangerousKeys]
  by (simp add: sanitizeRequestBody_def dangerousKeys_def)

lemma sanitizeRequestBody_unshadowed:
  assumes b: "body req = Some b" and own: "map_of b ''hasOwnProperty'' = None"
  shows "\<exists>b'. sanitizeRequestBody req = Inr (req\<lparr>body := Some b'\<rparr>)
            \<and> (\<forall>k. map_of b' k
                  = (if k \<in> set dangerousKeys then None else map_option trimmed (map_of b k)))"
proof -
  from remove_keys_unshadowed [OF own, of dangerousKeys] obtain b1 where
    b1: "remove_keys dangerousKeys b = Inr b1"
        "\<forall>k. map_of b1 k = (if k \<in> set dangerousKeys then None else map_of b k)"
    by blast
  have "sanitizeRequestBody req = Inr (req\<lparr>body := Some (trim_values b1)\<rparr>)"
    using b b1(1) by (simp add: sanitizeRequestBody_def)
  moreover have "\<forall>k. map_of (trim_values b1) k
                  = (if k \<in> set dangerousKeys then None else map_option trimmed (map_of b k))"
    using b1(2) by (simp add: map_of_trim_values)
  ultimately show ?thesis by blast
qed

lemma sanitizeRequestBody_unshadowed_example:
  "sanitizeRequestBody
     \<lparr>ip = JStr ''203.0.113.7'', remoteAddress = JStr ''203.0.113.7'',
      body = Some [(''__proto__'', JObj [(''admin'', JBool True)]), (''prompt'', JStr ''  hi  ''),
                   (''n'', JNum 3)],
      req_file = None\<rparr>
     = Inr \<lparr>ip = JStr ''203.0.113.7'', remoteAddress = JStr ''203.0.113.7'',
            body = Some [(''prompt'', JStr ''hi''), (''n'', JNum 3)], req_file = None\<rparr>"
  by (simp add: sanitizeRequestBody_def dangerousKeys_def hasOwnProperty_def trim_values_def
        trim_key_def trim_def isWhiteSpace_def)

section \<open>Properties of the file validator\<close>

lemma getFileTypeConfig_image: "getFileTypeConfig (JStr ''image'') = Some IMAGE"
  by (simp add: getFileTypeConfig_def FILE_TYPES_def toUpperCase_def upper_unit_def
        ascii_lower_def ascii_upper_def)

lemma getFileTypeConfig_document: "getFileTypeConfig (JStr ''document'') = Some DOCUMENT"
  by (simp add: getFileTypeConfig_def FILE_TYPES_def toUpperCase_def upper_unit_def
        ascii_lower_def ascii_upper_def)

lemma getFileTypeConfig_audio: "getFileTypeConfig (JStr ''audio'') = Some AUDIO"
  by (simp add: getFileTypeConfig_def FILE_TYPES_def toUpperCase_def upper_unit_def
        ascii_lower_def ascii_upper_def)

lemma getFileTypeConfig_video: "getFileTypeConfig (JStr ''video'') = Some VIDEO"
  by (simp add: getFileTypeConfig_def FILE_TYPES_def toUpperCase_def upper_unit_def
        ascii_lower_def ascii_upper_def)

lemma getFileTypeConfig_undefined: "getFileTypeConfig JUndefined = None"
  by (simp add: getFileTypeConfig_def)

lemma no_empty_mime:
  "[] \<notin> set (allowedMimeTypes IMAGE)" "[] \<notin> set (allowedMimeTypes DOCUMENT)"
  "[] \<notin> set (allowedMimeTypes AUDIO)" "[] \<notin> set (allowedMimeTypes VIDEO)"
  by (simp_all add: IMAGE_def DOCUMENT_def AUDIO_def VIDEO_def)

lemma isValidFileType_iff:
  assumes "getFileTypeConfig ft = Some C" and "[] \<notin> set (allowedMimeTypes C)"
  shows "isValidFileType (Some file) ft = (\<exists>m. mimetype file = JStr m \<and> m \<in> set (allowedMimeTypes C))"
  using assms by (cases "mimetype file") (auto simp: isValidFileType_def array_includes_def)

lemma isValidFileSize_iff:
  "isValidFileSize (Some file) mx = (\<exists>n. file_size file = JNum n \<and> n \<le> mx)"
  by (cases "file_size file") (auto simp: isValidFileSize_def)

lemma acceptable_iff:
  "acceptable C f
     = (\<exists>file. f = Some file
          \<and> (\<exists>m. mimetype file = JStr m \<and> m \<in> set (allowedMimeTypes C))
          \<and> (\<exists>n. file_size file = JNum n \<and> n \<le> maxSize C))"
proof (cases f)
  case None
  then show ?thesis by (simp add: acceptable_def)
next
  case (Some fl)
  have m: "(case mimetype fl of JStr m \<Rightarrow> m \<in> set (allowedMimeTypes C) | _ \<Rightarrow> False)
             = (\<exists>m. mimetype fl = JStr m \<and> m \<in> set (allowedMimeTypes C))"
    by (cases "mimetype fl") simp_all
  have n: "(case file_size fl of JNum n \<Rightarrow> n \<le> maxSize C | _ \<Rightarrow> False)
             = (\<exists>n. file_size fl = JNum n \<and> n \<le> maxSize C)"
    by (cases "file_size fl") simp_all
  show ?thesis unfolding Some acceptable_def by (simp add: m n)
qed

lemma validateFile_generic:
  assumes cfg: "getFileTypeConfig ft = Some C" and ne: "[] \<notin> set (allowedMimeTypes C)"
  shows "isValid (validateFile f ft) = acceptable C f"
proof (cases f)
  case None
  then show ?thesis by (simp add: validateFile_def cfg acceptable_def)
next
  case (Some fl)
  show ?thesis
    unfolding Some validateFile_def acceptable_iff
    by (simp add: cfg isValidFileType_iff [OF cfg ne] isValidFileSize_iff Let_def)
qed

lemma validateFile_at_limit:
  assumes cfg: "getFileTypeConfig ft = Some C" and ne: "[] \<notin> set (allowedMimeTypes C)"
    and mime: "mimetype file = JStr m" "m \<in> set (allowedMimeTypes C)"
  shows "validateFile (Some (file\<lparr>file_size := JNum (maxSize C)\<rparr>)) ft
           = \<lparr>isValid = True, error = None\<rparr>"
    and "validateFile (Some (file\<lparr>file_size := JNum (maxSize C + 1)\<rparr>)) ft
           = \<lparr>isValid = False,
              error = Some (''File size exceeds ''
                            @ int_to_string (Math_round_div (maxSize C) (1024 * 1024))
                            @ ''MB limit'')\<rparr>"
  using mime
  by (simp_all add: validateFile_def cfg isValidFileType_iff [OF cfg ne] isValidFileSize_iff Let_def)

lemma MB_ceilings:
  "int_to_string (Math_round_div (maxSize IMAGE) (1024 * 1024)) = ''10''"
  "int_to_string (Math_round_div (maxSize DOCUMENT) (1024 * 1024)) = ''50''"
  "int_to_string (Math_round_div (maxSize AUDIO) (1024 * 1024)) = ''100''"
  "int_to_string (Math_round_div (maxSize VIDEO) (1024 * 1024)) = ''200''"
  by (simp_all add: IMAGE_def DOCUMENT_def AUDIO_def VIDEO_def Math_round_div_def int_to_string_def
        nat_to_string.simps)

text \<open>The four categories, with the ceiling and the message as the validator computes them.\<close>

lemma validateFile_registry:
  "\<forall>(key, C) \<in> set FILE_TYPES.
      (\<forall>f. isValid (validateFile f (JStr (name C)))
         = (\<exists>file. f = Some file
              \<and> (\<exists>m. mimetype file = JStr m \<and> m \<in> set (allowedMimeTypes C))
              \<and> (\<exists>n. file_size file = JNum n \<and> n \<le> maxSize C)))
    \<and> (\<forall>file m. mimetype file = JStr m \<and> m \<in> set (allowedMimeTypes C) \<longrightarrow>
          validateFile (Some (file\<lparr>file_size := JNum (maxSize C)\<rparr>)) (JStr (name C))
            = \<lparr>isValid = True, error = None\<rparr>
        \<and> validateFile (Some (file\<lparr>file_size := JNum (maxSize C + 1)\<rparr>)) (JStr (name C))
            = \<lparr>isValid = False,
               error = Some (''File size exceeds ''
                             @ int_to_string (Math_round_div (maxSize C) (1024 * 1024))
                             @ ''MB limit'')\<rparr>)"
proof -
  have one: "(\<forall>f. isValid (validateFile f (JStr (name C)))
         = (\<exists>file. f = Some file
              \<and> (\<exists>m. mimetype file = JStr m \<and> m \<in> set (allowedMimeTypes C))
              \<and> (\<exists>n. file_size file = JNum n \<and> n \<le> maxSize C)))
    \<and> (\<forall>file m. mimetype file = JStr m \<and> m \<in> set (allowedMimeTypes C) \<longrightarrow>
          validateFile (Some (file\<lparr>file_size := JNum (maxSize C)\<rparr>)) (JStr (name C))
            = \<lparr>isValid = True, error = None\<rparr>
        \<and> validateFile (Some (file\<lparr>file_size := JNum (maxSize C + 1)\<rparr>)) (JStr (name C))
            = \<lparr>isValid = False,
               error = Some (''File size exceeds ''
                             @ int_to_string (Math_round_div (maxSize C) (1024 * 1024))
                             @ ''MB limit'')\<rparr>)"
    if cfg: "getFileTypeConfig (JStr (name C)) = Some C" and ne: "[] \<notin> set (allowedMimeTypes C)"
    for C
  proof (intro allI conjI impI)
    fix f
    show "isValid (validateFile f (JStr (name C)))
         = (\<exists>file. f = Some file
              \<and> (\<exists>m. mimetype file = JStr m \<and> m \<in> set (allowedMimeTypes C))
              \<and> (\<exists>n. file_size file = JNum n \<and> n \<le> maxSize C))"
      using validateFile_generic [OF cfg ne, of f] unfolding acceptable_iff .
  next
    fix f :: "upload_file option" and fl :: upload_file and m
    assume "mimetype fl = JStr m \<and> m \<in> set (allowedMimeTypes C)"
    then have m: "mimetype fl = JStr m" "m \<in> set (allowedMimeTypes C)" by simp_all
    show "validateFile (Some (fl\<lparr>file_size := JNum (maxSize C)\<rparr>)) (JStr (name C))
            = \<lparr>isValid = True, error = None\<rparr>"
      by (rule validateFile_at_limit(1) [OF cfg ne m])
    show "validateFile (Some (fl\<lparr>file_size := JNum (maxSize C + 1)\<rparr>)) (JStr (name C))
            = \<lparr>isValid = False,
               error = Some (''File size exceeds ''
                             @ int_to_string (Math_round_div (maxSize C) (1024 * 1024))
                             @ ''MB limit'')\<rparr>"
      by (rule validateFile_at_limit(2) [OF cfg ne m])
  qed
  have names: "name IMAGE = ''image''" "name DOCUMENT = ''document''"
    "name AUDIO = ''audio''" "name VIDEO = ''video''"
    by (simp_all add: IMAGE_def DOCUMENT_def AUDIO_def VIDEO_def)
  have I: "getFileTypeConfig (JStr (name IMAGE)) = Some IMAGE"
    unfolding names by (rule getFileTypeConfig_image)
  have D: "getFileTypeConfig (JStr (name DOCUMENT)) = Some DOCUMENT"
    unfolding names by (rule getFileTypeConfig_document)
  have A: "getFileTypeConfig (JStr (name AUDIO)) = Some AUDIO"
    unfolding names by (rule getFileTypeConfig_audio)
  have V: "getFileTypeConfig (JStr (name VIDEO)) = Some VIDEO"
    unfolding names by (rule getFileTypeConfig_video)
  show ?thesis
    unfolding FILE_TYPES_def
    using one [OF I no_empty_mime(1)] one [OF D no_empty_mime(2)]
      one [OF A no_empty_mime(3)] one [OF V no_empty_mime(4)]
    by simp
qed

text \<open>The same boundary for each category, with its ceiling in bytes and its message written out.\<close>

lemma validateFile_boundary_image:
  "(\<forall>file m. mimetype file = JStr m \<and> m \<in> set (allowedMimeTypes IMAGE) \<longrightarrow>
        validateFile (Some (file\<lparr>file_size := JNum (10 * 1024 * 1024)\<rparr>)) (JStr ''image'')
          = \<lparr>isValid = True, error = None\<rparr>
      \<and> validateFile (Some (file\<lparr>file_size := JNum (10 * 1024 * 1024 + 1)\<rparr>)) (JStr ''image'')
          = \<lparr>isValid = False, error = Some ''File size exceeds 10MB limit''\<rparr>)"
proof (intro allI impI)
  fix fl :: upload_file and m
  assume "mimetype fl = JStr m \<and> m \<in> set (allowedMimeTypes IMAGE)"
  then have m: "mimetype fl = JStr m" "m \<in> set (allowedMimeTypes IMAGE)" by simp_all
  have mx: "maxSize IMAGE = 10 * 1024 * 1024" by (simp add: IMAGE_def)
  show "validateFile (Some (fl\<lparr>file_size := JNum (10 * 1024 * 1024)\<rparr>)) (JStr ''image'')
          = \<lparr>isValid = True, error = None\<rparr>
      \<and> validateFile (Some (fl\<lparr>file_size := JNum (10 * 1024 * 1024 + 1)\<rparr>)) (JStr ''image'')
          = \<lparr>isValid = False, error = Some ''File size exceeds 10MB limit''\<rparr>"
    using validateFile_at_limit [OF getFileTypeConfig_image no_empty_mime(1) m,
        unfolded MB_ceilings(1), unfolded mx]
    by simp
qed

lemma validateFile_boundary_document:
  "(\<forall>file m. mimetype file = JStr m \<and> m \<in> set (allowedMimeTypes DOCUMENT) \<longrightarrow>
        validateFile (Some (file\<lparr>file_size := JNum (50 * 1024 * 1024)\<rparr>)) (JStr ''document'')
          = \<lparr>isValid = True, error = None\<rparr>
      \<and> validateFile (Some (file\<lparr>file_size := JNum (50 * 1024 * 1024 + 1)\<rparr>)) (JStr ''document'')
          = \<lparr>isValid = False, error = Some ''File size exceeds 50MB limit''\<rparr>)"
proof (intro allI impI)
  fix fl :: upload_file and m
  assume "mimetype fl = JStr m \<and> m \<in> set (allowedMimeTypes DOCUMENT)"
  then have m: "mimetype fl = JStr m" "m \<in> set (allowedMimeTypes DOCUMENT)" by simp_all
  have mx: "maxSize DOCUMENT = 50 * 1024 * 1024" by (simp add: DOCUMENT_def)
  show "validateFile (Some (fl\<lparr>file_size := JNum (50 * 1024 * 1024)\<rparr>)) (JStr ''document'')
          = \<lparr>isValid = True, error = None\<rparr>
      \<and> validateFile (Some (fl\<lparr>file_size := JNum (50 * 1024 * 1024 + 1)\<rparr>)) (JStr ''document'')
          = \<lparr>isValid = False, error = Some ''File size exceeds 50MB limit''\<rparr>"
    using validateFile_at_limit [OF getFileTypeConfig_document no_empty_mime(2) m,
        unfolded MB_ceilings(2), unfolded mx]
    by simp
qed

lemma validateFile_boundary_audio:
  "(\<forall>file m. mimetype file = JStr m \<and> m \<in> set (allowedMimeTypes AUDIO) \<longrightarrow>
        validateFile (Some (file\<lparr>file_size := JNum (100 * 1024 * 1024)\<rparr>)) (JStr ''audio'')
          = \<lparr>isValid = True, error = None\<rparr>
      \<and> validateFile (Some (file\<lparr>file_size := JNum (100 * 1024 * 1024 + 1)\<rparr>)) (JStr ''audio'')
          = \<lparr>isValid = False, error = Some ''File size exceeds 100MB limit''\<rparr>)"
proof (intro allI impI)
  fix fl :: upload_file and m
  assume "mimetype fl = JStr m \<and> m \<in> set (allowedMimeTypes AUDIO)"
  then have m: "mimetype fl = JStr m" "m \<in> set (allowedMimeTypes AUDIO)" by simp_all
  have mx: "maxSize AUDIO = 100 * 1024 * 1024" by (simp add: AUDIO_def)
  show "validateFile (Some (fl\<lparr>file_size := JNum (100 * 1024 * 1024)\<rparr>)) (JStr ''audio'')
          = \<lparr>isValid = True, error = None\<rparr>
      \<and> validateFile (Some (fl\<lparr>file_size := JNum (100 * 1024 * 1024 + 1)\<rparr>)) (JStr ''audio'')
          = \<lparr>isValid = False, error = Some ''File size exceeds 100MB limit''\<rparr>"
    using validateFile_at_limit [OF getFileTypeConfig_audio no_empty_mime(3) m,
        unfolded MB_ceilings(3), unfolded mx]
    by simp
qed

lemma validateFile_boundary_video:
  "(\<forall>file m. mimetype file = JStr m \<and> m \<in> set (allowedMimeTypes VIDEO) \<longrightarrow>
        validateFile (Some (file\<lparr>file_size := JNum (200 * 1024 * 1024)\<rparr>)) (JStr ''video'')
          = \<lparr>isValid = True, error = None\<rparr>
      \<and> validateFile (Some (file\<lparr>file_size := JNum (200 * 1024 * 1024 + 1)\<rparr>)) (JStr ''video'')
          = \<lparr>isValid = False, error = Some ''File size exceeds 200MB limit''\<rparr>)"
proof (intro allI impI)
  fix fl :: upload_file and m
  assume "mimetype fl = JStr m \<and> m \<in> set (allowedMimeTypes VIDEO)"
  then have m: "mimetype fl = JStr m" "m \<in> set (allowedMimeTypes VIDEO)" by simp_all
  have mx: "maxSize VIDEO = 200 * 1024 * 1024" by (simp add: VIDEO_def)
  show "validateFile (Some (fl\<lparr>file_size := JNum (200 * 1024 * 1024)\<rparr>)) (JStr ''video'')
          = \<lparr>isValid = True, error = None\<rparr>
      \<and> validateFile (Some (fl\<lparr>file_size := JNum (200 * 1024 * 1024 + 1)\<rparr>)) (JStr ''video'')
          = \<lparr>isValid = False, error = Some ''File size exceeds 200MB limit''\<rparr>"
    using validateFile_at_limit [OF getFileTypeConfig_video no_empty_mime(4) m,
        unfolded MB_ceilings(4), unfolded mx]
    by simp
qed

text \<open>
  C5. For each of the four categories of the registry and every file, \<^verbatim>\<open>validateFile\<close>
  reports valid if and only if the file is present, its declared MIME type is in the
  category's allow-list and its size is a number not above the category's ceiling. A file
  of an allowed type is valid at exactly the ceiling and, one byte above it, invalid with
  the message that names the ceiling in rounded megabytes: 10 MB for an image, 50 MB for
  a document, 100 MB for audio and 200 MB for video.
\<close>

theorem validateFile_valid_iff:
  "(\<forall>(key, C) \<in> set FILE_TYPES.
      (\<forall>f. isValid (validateFile f (JStr (name C)))
         = (\<exists>file. f = Some file
              \<and> (\<exists>m. mimetype file = JStr m \<and> m \<in> set (allowedMimeTypes C))
              \<and> (\<exists>n. file_size file = JNum n \<and> n \<le> maxSize C)))
    \<and> (\<forall>file m. mimetype file = JStr m \<and> m \<in> set (allowedMimeTypes C) \<longrightarrow>
          validateFile (Some (file\<lparr>file_size := JNum (maxSize C)\<rparr>)) (JStr (name C))
            = \<lparr>isValid = True, error = None\<rparr>
        \<and> validateFile (Some (file\<lparr>file_size := JNum (maxSize C + 1)\<rparr>)) (JStr (name C))
            = \<lparr>isValid = False,
               error = Some (''File size exceeds ''
                             @ int_to_string (Math_round_div (maxSize C) (1024 * 1024))
                             @ ''MB limit'')\<rparr>))
   \<and> (\<forall>file m. mimetype file = JStr m \<and> m \<in> set (allowedMimeTypes IMAGE) \<longrightarrow>
        validateFile (Some (file\<lparr>file_size := JNum (10 * 1024 * 1024)\<rparr>)) (JStr ''image'')
          = \<lparr>isValid = True, error = None\<rparr>
      \<and> validateFile (Some (file\<lparr>file_size := JNum (10 * 1024 * 1024 + 1)\<rparr>)) (JStr ''image'')
          = \<lparr>isValid = False, error = Some ''File size exceeds 10MB limit''\<rparr>)
   \<and> (\<forall>file m. mimetype file = JStr m \<and> m \<in> set (allowedMimeTypes DOCUMENT) \<longrightarrow>
        validateFile (Some (file\<lparr>file_size := JNum (50 * 1024 * 1024)\<rparr>)) (JStr ''document'')
          = \<lparr>isValid = True, error = None\<rparr>
      \<and> validateFile (Some (file\<lparr>file_size := JNum (50 * 1024 * 1024 + 1)\<rparr>)) (JStr ''document'')
          = \<lparr>isValid = False, error = Some ''File size exceeds 50MB limit''\<rparr>)
   \<and> (\<forall>file m. mimetype file = JStr m \<and> m \<in> set (allowedMimeTypes AUDIO) \<longrightarrow>
        validateFile (Some (file\<lparr>file_size := JNum (100 * 1024 * 1024)\<rparr>)) (JStr ''audio'')
          = \<lparr>isValid = True, error = None\<rparr>
      \<and> validateFile (Some (file\<lparr>file_size := JNum (100 * 1024 * 1024 + 1)\<rparr>)) (JStr ''audio'')
          = \<lparr>isValid = False, error = Some ''File size exceeds 100MB limit''\<rparr>)
   \<and> (\<forall>file m. mimetype file = JStr m \<and> m \<in> set (allowedMimeTypes VIDEO) \<longrightarrow>
        validateFile (Some (file\<lparr>file_size := JNum (200 * 1024 * 1024)\<rparr>)) (JStr ''video'')
          = \<lparr>isValid = True, error = None\<rparr>
      \<and> validateFile (Some (file\<lparr>file_size := JNum (200 * 1024 * 1024 + 1)\<rparr>)) (JStr ''video'')
          = \<lparr>isValid = False, error = Some ''File size exceeds 200MB limit''\<rparr>)"
  using validateFile_registry validateFile_boundary_image validateFile_boundary_document
    validateFile_boundary_audio validateFile_boundary_video
  by (intro conjI)

theorem validateFile_valid_iff_witness:
  "isValid (validateFile
       (Some \<lparr>originalname = JStr ''cat.jpg'', mimetype = JStr ''image/jpeg'',
               file_size = JNum (10 * 1024 * 1024), buffer = Some []\<rparr>) (JStr ''image''))
   \<and> validateFile
       (Some \<lparr>originalname = JStr ''cat.jpg'', mimetype = JStr ''image/jpeg'',
               file_size = JNum (10 * 1024 * 1024 + 1), buffer = Some []\<rparr>) (JStr ''image'')
       = \<lparr>isValid = False, error = Some ''File size exceeds 10MB limit''\<rparr>
   \<and> validateFile
       (Some \<lparr>originalname = JStr ''clip.mp4'', mimetype = JStr ''video/mp4'',
               file_size = JNum (200 * 1024 * 1024 + 1), buffer = Some []\<rparr>) (JStr ''video'')
       = \<lparr>isValid = False, error = Some ''File size exceeds 200MB limit''\<rparr>
   \<and> isValid (validateFile
       (Some \<lparr>originalname = JStr ''notes.pdf'', mimetype = JStr ''application/pdf'',
               file_size = JNum 4096, buffer = Some []\<rparr>) (JStr ''document''))"
proof -
  let ?cat = "\<lparr>originalname = JStr ''cat.jpg'', mimetype = JStr ''image/jpeg'',
              file_size = JNum 0, buffer = Some []\<rparr>"
  let ?clip = "\<lparr>originalname = JStr ''clip.mp4'', mimetype = JStr ''video/mp4'',
               file_size = JNum 0, buffer = Some []\<rparr>"
  let ?pdf = "\<lparr>originalname = JStr ''notes.pdf'', mimetype = JStr ''application/pdf'',
              file_size = JNum 4096, buffer = Some []\<rparr>"
  note t = validateFile_valid_iff
  have cat: "mimetype ?cat = JStr ''image/jpeg'' \<and> ''image/jpeg'' \<in> set (allowedMimeTypes IMAGE)"
    by (simp add: IMAGE_def)
  have clip: "mimetype ?clip = JStr ''video/mp4'' \<and> ''video/mp4'' \<in> set (allowedMimeTypes VIDEO)"
    by (simp add: VIDEO_def)
  have image: "validateFile (Some (?cat\<lparr>file_size := JNum (10 * 1024 * 1024)\<rparr>)) (JStr ''image'')
          = \<lparr>isValid = True, error = None\<rparr>
      \<and> validateFile (Some (?cat\<lparr>file_size := JNum (10 * 1024 * 1024 + 1)\<rparr>)) (JStr ''image'')
          = \<lparr>isValid = False, error = Some ''File size exceeds 10MB limit''\<rparr>"
    using t cat by blast
  have video: "validateFile (Some (?clip\<lparr>file_size := JNum (200 * 1024 * 1024)\<rparr>)) (JStr ''video'')
          = \<lparr>isValid = True, error = None\<rparr>
      \<and> validateFile (Some (?clip\<lparr>file_size := JNum (200 * 1024 * 1024 + 1)\<rparr>)) (JStr ''video'')
          = \<lparr>isValid = False, error = Some ''File size exceeds 200MB limit''\<rparr>"
    using t clip by blast
  have mem: "(''DOCUMENT'', DOCUMENT) \<in> set FILE_TYPES" by (simp add: FILE_TYPES_def)
  have nm: "name DOCUMENT = ''document''" by (simp add: DOCUMENT_def)
  have "isValid (validateFile (Some ?pdf) (JStr (name DOCUMENT)))
          = (\<exists>file. Some ?pdf = Some file
              \<and> (\<exists>m. mimetype file = JStr m \<and> m \<in> set (allowedMimeTypes DOCUMENT))
              \<and> (\<exists>n. file_size file = JNum n \<and> n \<le> maxSize DOCUMENT))"
    using bspec [OF conjunct1 [OF t] mem] by simp
  then have pdf: "isValid (validateFile (Some ?pdf) (JStr ''document''))"
    unfolding nm by (simp add: DOCUMENT_def)
  show ?thesis using image video pdf by simp
qed

text \<open>
  C2. The file-types handler calls \<^verbatim>\<open>getFileTypeConfig()\<close> without an argument; that
  returns \<^verbatim>\<open>null\<close>, \<^verbatim>\<open>Object.entries(null)\<close> throws, and the handler answers every
  request with the 500 envelope. The claim expects the list of the four categories in a
  success envelope.
\<close>

theorem getSupportedFileTypes_always_500:
  "snd (getSupportedFileTypes rt)
     = \<lparr>http_status = JNum 500,
        json = \<lparr>status = False, code = JNum 500,
                 message = JStr ''Failed to retrieve file types information'',
                 data = None, meta = None,
                 errors = Some (if rt_NODE_ENV rt = Some ''development''
                                then JObj [(''message'', JStr ''Cannot convert undefined or null to object''),
                                           (''stack'', JStr (rt_stack rt
                                              (TypeError ''Cannot convert undefined or null to object'')))]
                                else JStr ''Internal server error occurred''),
                 timestamp = rt_now_iso rt\<rparr>\<rparr>"
  by (simp add: getSupportedFileTypes_def getFileTypeConfig_undefined sendInternalServerError_def
        sendErrorResponse_num default_arg_def error_object_def Let_def)

text \<open>The sibling \<^verbatim>\<open>getAllFileTypeConfigs\<close> maps the registry itself and lists the four.\<close>

lemma getAllFileTypeConfigs_types:
  "map (\<lambda>v. js_prop v ''type'') getAllFileTypeConfigs
     = [JStr ''image'', JStr ''document'', JStr ''audio'', JStr ''video'']"
  by (simp add: getAllFileTypeConfigs_def FILE_TYPES_def toLowerCase_def lower_unit_def
        ascii_lower_def ascii_upper_def)

section \<open>Properties of the orchestrator\<close>

lemma validateFile_invalid_error:
  "\<not> isValid (validateFile f ft) \<Longrightarrow> \<exists>m. error (validateFile f ft) = Some m"
  by (auto simp: validateFile_def Let_def split: option.splits if_splits)

lemma handleFileRequest_invalid_trace:
  assumes "\<not> isValid (validateFile (req_file req) (JStr fileType))"
  shows "fst (handleFileRequest rt req endpoint fileType)
           \<in> {[ConsoleError ''ERROR'', ConsoleError ''Internal Server Error:''],
              [ConsoleLog ''REQUEST'', ConsoleError ''ERROR'', ConsoleError ''Internal Server Error:''],
              [ConsoleLog ''REQUEST'', ConsoleWarn ''VALIDATION_ERROR'']}"
proof (cases "body req")
  case None
  then show ?thesis
    by (simp add: handleFileRequest_def handleFileRequest_try_def logRequest_def
          sendInternalServerError_def Let_def)
next
  case (Some b)
  show ?thesis
  proof (cases "js_prop (JObj b) ''prompt''")
    case (JStr s)
    then show ?thesis using Some assms
      by (simp add: handleFileRequest_def handleFileRequest_try_def logRequest_def
          sendInternalServerError_def Let_def del: js_prop.simps)
  qed (use Some in \<open>simp_all add: handleFileRequest_def handleFileRequest_try_def logRequest_def
          sendInternalServerError_def Let_def del: js_prop.simps\<close>)
qed

lemma handleFileRequest_invalid_answer:
  assumes inv: "\<not> isValid (validateFile (req_file req) (JStr fileType))"
    and b: "body req = Some b" and p: "js_prop (JObj b) ''prompt'' = JStr s" and s: "trim s \<noteq> []"
    and m: "error (validateFile (req_file req) (JStr fileType)) = Some m"
  shows "snd (handleFileRequest rt req endpoint fileType)
           = sendValidationError (JStr m) JUndefined (rt_now_iso rt)"
proof -
  have "s \<noteq> []" using s trim_Nil by auto
  then show ?thesis using inv b p s m
    by (simp add: handleFileRequest_def handleFileRequest_try_def logRequest_def Let_def
          del: js_prop.simps)
qed

text \<open>
  C7, counterexample. A request without a prompt and without a file fails the file
  validation, yet the handler answers 500: its prompt check comes first and throws.
\<close>

theorem handleFileRequest_prompt_counterexample:
  "isValid (validateFile (req_file example_client) (JStr ''image'')) = False
   \<and> http_status (snd (generateImage example_runtime example_client)) = JNum 500
   \<and> message (json (snd (generateImage example_runtime example_client)))
       = JStr ''Failed to generate content from image''"
  by (simp add: example_client_def example_runtime_def generateImage_def handleFileRequest_def
        handleFileRequest_try_def logRequest_def validateFile_def getFileTypeConfig_image
        sendInternalServerError_def sendErrorResponse_num default_arg_def Let_def)

lemma handleFileRequest_valid_trace:
  assumes v: "isValid (validateFile (req_file req) (JStr fileType))"
    and b: "body req = Some b" and p: "js_prop (JObj b) ''prompt'' = JStr s" and s: "trim s \<noteq> []"
    and fd: "prepareFileForAPI (req_file req) = Inr fd"
  shows "take 3 (fst (handleFileRequest rt req endpoint fileType))
           = [ConsoleLog ''REQUEST'', Encoded fd, UpstreamCalled (trim s) (Some fd)]"
proof -
  have "s \<noteq> []" using s trim_Nil by auto
  then show ?thesis using v b p s fd
    by (simp add: handleFileRequest_def handleFileRequest_try_def logRequest_def Let_def
          performanceMonitoredGenerate_def callGeminiAPI_def sendInternalServerError_def
          split: sum.splits del: js_prop.simps)
qed

text \<open>A request that the prompt validator lets through has the prompt the handler asks for.\<close>

lemma validatePrompt_passes_on:
  assumes "validatePrompt t req0 = Inr (req, Next)"
  shows "\<exists>b s. body req = Some b \<and> js_prop (JObj b) ''prompt'' = JStr s \<and> trim s \<noteq> []"
proof (cases "body req0")
  case None
  with assms show ?thesis by (simp add: validatePrompt_def)
next
  case (Some b0)
  note c = validatePrompt_cases [OF Some refl, of t]
  show ?thesis
  proof (cases "js_prop (JObj b0) ''prompt''")
    case (JStr s)
    with assms c have s: "trim s \<noteq> []"
      and req: "req = req0\<lparr>body := Some (AList.update ''prompt'' (JStr (trim s)) b0)\<rparr>"
      by (auto split: if_splits)
    have "body req = Some (AList.update ''prompt'' (JStr (trim s)) b0)"
      using req by simp
    moreover have "js_prop (JObj (AList.update ''prompt'' (JStr (trim s)) b0)) ''prompt''
                     = JStr (trim s)"
      by (simp add: update_conv')
    moreover have "trim (trim s) \<noteq> []" using s by (simp add: trim_idem)
    ultimately show ?thesis by blast
  qed (use assms c in \<open>auto split: if_splits\<close>)
qed

text \<open>
  C7, as amended. In the file-upload handler, for every request whose file fails the
  category validation: if the request has a body whose prompt is a string that is not
  empty after trimming, the answer is the 400 validation-error envelope with the
  validator's message (so it is for every request that the prompt validator let
  through); and whatever the prompt, the file is not encoded and the upstream service is
  not called. An encoding or an upstream call in the handler's trace
  implies that validation succeeded, and on that path the encoding precedes the call.
\<close>

theorem handleFileRequest_validation_gate:
  "(\<not> isValid (validateFile (req_file req) (JStr fileType)) \<longrightarrow>
      (\<forall>b s. body req = Some b \<and> js_prop (JObj b) ''prompt'' = JStr s \<and> trim s \<noteq> [] \<longrightarrow>
         (\<exists>m. error (validateFile (req_file req) (JStr fileType)) = Some m
            \<and> snd (handleFileRequest rt req endpoint fileType)
                = sendValidationError (JStr m) JUndefined (rt_now_iso rt)
            \<and> message (json (snd (handleFileRequest rt req endpoint fileType))) = JStr m)
         \<and> http_status (snd (handleFileRequest rt req endpoint fileType)) = JNum 400
         \<and> code (json (snd (handleFileRequest rt req endpoint fileType))) = JNum 400)
    \<and> (\<forall>t req0. validatePrompt t req0 = Inr (req, Next) \<longrightarrow>
         (\<exists>m. error (validateFile (req_file req) (JStr fileType)) = Some m
            \<and> snd (handleFileRequest rt req endpoint fileType)
                = sendValidationError (JStr m) JUndefined (rt_now_iso rt))
         \<and> http_status (snd (handleFileRequest rt req endpoint fileType)) = JNum 400)
    \<and> (\<forall>ev \<in> set (fst (handleFileRequest rt req endpoint fileType)).
          \<not> is_upstream ev \<and> \<not> is_encoded ev))
   \<and> ((\<exists>ev \<in> set (fst (handleFileRequest rt req endpoint fileType)).
          is_upstream ev \<or> is_encoded ev) \<longrightarrow>
        isValid (validateFile (req_file req) (JStr fileType)))
   \<and> (\<forall>b s fd. isValid (validateFile (req_file req) (JStr fileType))
          \<and> body req = Some b \<and> js_prop (JObj b) ''prompt'' = JStr s \<and> trim s \<noteq> []
          \<and> prepareFileForAPI (req_file req) = Inr fd \<longrightarrow>
        take 3 (fst (handleFileRequest rt req endpoint fileType))
          = [ConsoleLog ''REQUEST'', Encoded fd, UpstreamCalled (trim s) (Some fd)])"
proof -
  let ?v = "validateFile (req_file req) (JStr fileType)"
  let ?h = "handleFileRequest rt req endpoint fileType"
  have quiet: "\<forall>ev \<in> set (fst ?h). \<not> is_upstream ev \<and> \<not> is_encoded ev" if inv: "\<not> isValid ?v"
    using handleFileRequest_invalid_trace [OF inv, of rt endpoint] by auto
  have answer: "(\<exists>m. error ?v = Some m
                   \<and> snd ?h = sendValidationError (JStr m) JUndefined (rt_now_iso rt)
                   \<and> message (json (snd ?h)) = JStr m)
                \<and> http_status (snd ?h) = JNum 400 \<and> code (json (snd ?h)) = JNum 400"
    if inv: "\<not> isValid ?v"
      and h: "body req = Some b \<and> js_prop (JObj b) ''prompt'' = JStr s \<and> trim s \<noteq> []"
    for b s
  proof -
    from validateFile_invalid_error [OF inv] obtain m where m: "error ?v = Some m" by blast
    have ans: "snd ?h = sendValidationError (JStr m) JUndefined (rt_now_iso rt)"
      using handleFileRequest_invalid_answer [OF inv _ _ _ m] h by blast
    show ?thesis
      using m ans by (simp add: sendValidationError_def sendErrorResponse_num default_arg_def)
  qed
  have ordered: "take 3 (fst ?h) = [ConsoleLog ''REQUEST'', Encoded fd, UpstreamCalled (trim s) (Some fd)]"
    if "isValid ?v \<and> body req = Some b \<and> js_prop (JObj b) ''prompt'' = JStr s \<and> trim s \<noteq> []
          \<and> prepareFileForAPI (req_file req) = Inr fd" for b s fd
    using that handleFileRequest_valid_trace [of req fileType b s fd rt endpoint] by blast
  have after_middleware:
    "(\<exists>m. error ?v = Some m \<and> snd ?h = sendValidationError (JStr m) JUndefined (rt_now_iso rt))
     \<and> http_status (snd ?h) = JNum 400"
    if inv: "\<not> isValid ?v" and passed: "validatePrompt t req0 = Inr (req, Next)" for t req0
  proof -
    from validatePrompt_passes_on [OF passed] obtain b s where
      "body req = Some b \<and> js_prop (JObj b) ''prompt'' = JStr s \<and> trim s \<noteq> []" by blast
    from answer [OF inv this] show ?thesis by blast
  qed
  show ?thesis
    using quiet answer after_middleware ordered by blast
qed

theorem handleFileRequest_validation_gate_witness:
  "isValid (validateFile (req_file oversized_upload) (JStr ''image'')) = False
   \<and> snd (handleFileRequest example_runtime oversized_upload ''generate-from-image'' ''image'')
       = sendValidationError (JStr ''File size exceeds 10MB limit'') JUndefined
           ''2023-01-01T00:00:00.000Z''
   \<and> http_status (snd (handleFileRequest example_runtime oversized_upload
                          ''generate-from-image'' ''image'')) = JNum 400
   \<and> list_all (\<lambda>ev. \<not> is_upstream ev \<and> \<not> is_encoded ev)
        (fst (handleFileRequest example_runtime oversized_upload ''generate-from-image'' ''image''))"
proof -
  have v: "validateFile (req_file oversized_upload) (JStr ''image'')
             = \<lparr>isValid = False, error = Some ''File size exceeds 10MB limit''\<rparr>"
    by (simp add: oversized_upload_def validateFile_def getFileTypeConfig_image
          isValidFileType_def isValidFileSize_def array_includes_def IMAGE_def Let_def
          Math_round_div_def int_to_string_def nat_to_string.simps)
  then have inv: "\<not> isValid (validateFile (req_file oversized_upload) (JStr ''image''))" by simp
  have b: "body oversized_upload = Some [(''prompt'', JStr ''Describe this image'')]"
    by (simp add: oversized_upload_def)
  have p: "js_prop (JObj [(''prompt'', JStr ''Describe this image'')]) ''prompt''
             = JStr ''Describe this image''" by simp
  have s: "trim ''Describe this image'' \<noteq> []" by (simp add: trim_def isWhiteSpace_def)
  note g = handleFileRequest_validation_gate
             [of oversized_upload "''image''" example_runtime "''generate-from-image''"]
  have now: "rt_now_iso example_runtime = ''2023-01-01T00:00:00.000Z''"
    by (simp add: example_runtime_def)
  from g inv b p s have
    "\<exists>m. error (validateFile (req_file oversized_upload) (JStr ''image'')) = Some m
        \<and> snd (handleFileRequest example_runtime oversized_upload ''generate-from-image'' ''image'')
            = sendValidationError (JStr m) JUndefined (rt_now_iso example_runtime)"
    by blast
  then have a1: "snd (handleFileRequest example_runtime oversized_upload ''generate-from-image'' ''image'')
       = sendValidationError (JStr ''File size exceeds 10MB limit'') JUndefined
           ''2023-01-01T00:00:00.000Z''"
    unfolding v now by simp
  from g inv b p s have a2:
    "http_status (snd (handleFileRequest example_runtime oversized_upload
                          ''generate-from-image'' ''image'')) = JNum 400"
    by blast
  from g inv have a3:
    "\<forall>ev \<in> set (fst (handleFileRequest example_runtime oversized_upload
                          ''generate-from-image'' ''image'')).
        \<not> is_upstream ev \<and> \<not> is_encoded ev"
    by blast
  show ?thesis using inv a1 a2 a3 by (simp add: list_all_iff)
qed

end
